theory Spec2Isabelle
  imports Complex_Main
begin

section \<open>Numbers and values of the JavaScript source\<close>

text \<open>
  The sources are JavaScript (\<^verbatim>\<open>src/src/opencvUtils.js\<close>, its older copy
  \<^verbatim>\<open>src/unnamed/part_000\<close>, the variant \<^verbatim>\<open>src/src/utils/opencvUtils.js\<close>, the
  state hook \<^verbatim>\<open>src/src/hooks/useDetectionState.jsx\<close> and the single-file application
  \<^verbatim>\<open>src/unnamed/part_005\<close>).  A finite JavaScript number is modelled as a \<open>real\<close>:
  the rounding error and the overflow of IEEE doubles are not modelled, so the model
  and the source agree on a number only where the doubles compute it exactly.  A value that
  may be \<^verbatim>\<open>null\<close> is an \<open>option\<close>.  Where the source divides by a number that no
  guard keeps away from zero, the quotient is a \<open>jsnum\<close>, which has the infinities
  and NaN that JavaScript produces there.
\<close>

datatype jsnum = Fin real | PosInf | NegInf | NaN

text \<open>\<^verbatim>\<open>a / b\<close> for finite \<open>a\<close> and \<open>b\<close>.\<close>

definition js_div :: "real \<Rightarrow> real \<Rightarrow> jsnum" where
  "js_div a b =
     (if b \<noteq> 0 then Fin (a / b)
      else if 0 < a then PosInf
      else if a < 0 then NegInf
      else NaN)"

text \<open>\<^verbatim>\<open>a > b\<close>: every comparison with NaN is false.\<close>

fun js_gt :: "jsnum \<Rightarrow> jsnum \<Rightarrow> bool" where
  "js_gt NaN _ = False"
| "js_gt _ NaN = False"
| "js_gt (Fin a) (Fin b) = (b < a)"
| "js_gt PosInf PosInf = False"
| "js_gt PosInf _ = True"
| "js_gt _ PosInf = False"
| "js_gt NegInf _ = False"
| "js_gt (Fin a) NegInf = True"

text \<open>\<^verbatim>\<open>Math.round\<close>: the nearest integer, a tie going up.\<close>

definition js_round :: "real \<Rightarrow> real" where
  "js_round v = of_int \<lfloor>v + 1 / 2\<rfloor>"

text \<open>
  The truth value of a number that may be \<^verbatim>\<open>null\<close>, as \<^verbatim>\<open>if (v)\<close> and
  \<^verbatim>\<open>!v\<close> read it: \<^verbatim>\<open>null\<close> and \<open>0\<close> are false.  \<open>None\<close> also stands for
  \<^verbatim>\<open>undefined\<close> and NaN, which are false as well.
\<close>

definition truthy :: "real option \<Rightarrow> bool" where
  "truthy v = (case v of None \<Rightarrow> False | Some n \<Rightarrow> n \<noteq> 0)"

text \<open>Decimal printing of a natural number, as a template literal prints it.\<close>

definition digit_char :: "nat \<Rightarrow> char" where
  "digit_char d = ''0123456789'' ! d"

function show_nat :: "nat \<Rightarrow> string" where
  "show_nat n = (if n < 10 then [digit_char n] else show_nat (n div 10) @ [digit_char (n mod 10)])"
  by pat_completeness auto
termination
  by (relation "measure (\<lambda>n. n)") auto

declare show_nat.simps [simp del]

section \<open>Data model\<close>

text \<open>
  The fields \<^verbatim>\<open>x\<close>, \<^verbatim>\<open>y\<close> of a point and of a rectangle, \<^verbatim>\<open>start\<close> and
  \<^verbatim>\<open>end\<close> of an edge and \<^verbatim>\<open>id\<close> of an object are renamed, since a record field is a
  constant of the theory.  A spread \<^verbatim>\<open>{...obj, f: v}\<close> is a record update: it keeps
  every other property, also those of the record's extension.
\<close>

record point =
  pt_x :: real
  pt_y :: real

record rect =
  rect_x :: real
  rect_y :: real
  width :: real
  height :: real

record edge =
  edge_start :: point
  edge_end :: point
  pixelLength :: real
  realLength :: "real option"

record edge_measure =
  m_pixelLength :: real
  m_realLength :: "real option"

record measurements_view =
  m_edges :: "edge_measure list"
  m_perimeter :: "real option"

text \<open>
  \<open>circularity\<close> is \<open>None\<close> where the object literal has no such property (the manual
  polygons).  \<open>obj_pixelDistance\<close> is \<open>None\<close> where the literal has no such property
  or has \<^verbatim>\<open>pixelDistance: null\<close>.
\<close>

record detected_object =
  obj_id :: string
  name :: string
  color :: string
  contour :: rect
  points :: "point list"
  edges :: "edge list"
  area :: real
  perimeter :: real
  isCoin :: bool
  circularity :: "jsnum option"
  obj_pixelDistance :: "real option"
  measurements :: measurements_view

section \<open>Calibration: \<^verbatim>\<open>src/src/opencvUtils.js\<close>\<close>

definition COIN_DIAMETER_MM :: real where
  "COIN_DIAMETER_MM = 26.5"

definition calculatePPM :: "real \<Rightarrow> real" where
  "calculatePPM pixelDistance = pixelDistance / COIN_DIAMETER_MM"

definition calculatePixelDistance :: "point \<Rightarrow> point \<Rightarrow> real" where
  "calculatePixelDistance p1 p2 =
     (let dx = pt_x p2 - pt_x p1;
          dy = pt_y p2 - pt_y p1
      in sqrt (dx * dx + dy * dy))"

text \<open>
  \<^verbatim>\<open>edge => ({...edge, realLength: Math.round((edge.pixelLength / ppm) * 100) / 100})\<close>
  The quotient and the product are exact here.  The source rounds each of them to a
  double, and where the exact product is a tie of \<^verbatim>\<open>Math.round\<close> it can return the
  hundredth below: for \<^verbatim>\<open>pixelLength = 3\<close> and \<^verbatim>\<open>ppm = 20 / 26.5\<close> the doubles give
  397.49999999999994 and so 3.97, the exact product 397.5 gives 3.98.  A general
  statement below about such a value (\<open>applyPPMToObject_recomputes\<close>) is one of the exact
  arithmetic; the values that are evaluated below (10 / 2) are exact in doubles.
\<close>

definition scale_edge :: "real \<Rightarrow> edge \<Rightarrow> edge" where
  "scale_edge ppm e = e\<lparr>realLength := Some (js_round ((pixelLength e / ppm) * 100) / 100)\<rparr>"

text \<open>\<^verbatim>\<open>e => ({pixelLength: e.pixelLength, realLength: e.realLength})\<close>\<close>

definition measure_of_edge :: "edge \<Rightarrow> edge_measure" where
  "measure_of_edge e = \<lparr>m_pixelLength = pixelLength e, m_realLength = realLength e\<rparr>"

text \<open>
  \<^verbatim>\<open>applyPPMToObject(obj, ppm)\<close> of \<^verbatim>\<open>src/src/opencvUtils.js\<close>.  The guard
  \<^verbatim>\<open>!ppm || ppm <= 0\<close> returns the object itself; its two tests are made one after
  the other, as \<^verbatim>\<open>||\<close> makes them.
\<close>

definition applyPPMToObject ::
  "'a detected_object_scheme \<Rightarrow> real option \<Rightarrow> 'a detected_object_scheme" where
  "applyPPMToObject obj ppm =
     (case ppm of
        None \<Rightarrow> obj
      | Some p \<Rightarrow>
          if \<not> truthy (Some p) then obj
          else if p \<le> 0 then obj
          else
            let updatedEdges = map (scale_edge p) (edges obj);
                realPerimeter = js_round ((perimeter obj / p) * 100) / 100
            in obj\<lparr>edges := updatedEdges,
                    measurements :=
                      \<lparr>m_edges = map measure_of_edge updatedEdges,
                       m_perimeter = Some realPerimeter\<rparr>\<rparr>)"

text \<open>
  \<^verbatim>\<open>applyPPMToObject(object, ppm)\<close> of \<^verbatim>\<open>src/unnamed/part_000\<close>: the object
  literal it returns has \<^verbatim>\<open>...object\<close> and \<^verbatim>\<open>measurements\<close> only, no
  \<^verbatim>\<open>edges\<close> property of its own.
\<close>

definition applyPPMToObject_part_000 ::
  "'a detected_object_scheme \<Rightarrow> real option \<Rightarrow> 'a detected_object_scheme" where
  "applyPPMToObject_part_000 object ppm =
     (case ppm of
        None \<Rightarrow> object
      | Some p \<Rightarrow>
          if \<not> truthy (Some p) then object
          else if p \<le> 0 then object
          else
            let updatedEdges = map (scale_edge p) (edges object);
                realPerimeter = js_round ((perimeter object / p) * 100) / 100
            in object\<lparr>measurements :=
                      \<lparr>m_edges = map measure_of_edge updatedEdges,
                       m_perimeter = Some realPerimeter\<rparr>\<rparr>)"

section \<open>The OpenCV calls\<close>

text \<open>
  OpenCV.js is not code of this repository.  The detection functions read a contour
  only through \<^verbatim>\<open>cv.contourArea\<close>, \<^verbatim>\<open>cv.boundingRect\<close>,
  \<^verbatim>\<open>cv.arcLength(contour, true)\<close>, \<^verbatim>\<open>cv.approxPolyDP(contour, approx, epsilon, true)\<close>
  (whose rows are read into \<^verbatim>\<open>{x, y}\<close> points) and \<^verbatim>\<open>cv.moments\<close>, so these are
  parameters of the model and the type \<open>'c\<close> of a contour is left open.  Inside the
  loops each of these calls is taken to return a value; an exception is modelled only
  where the image is loaded and prepared, before the loop.
\<close>

record cv_moments =
  m00 :: real
  m10 :: real
  m01 :: real

record 'c cv_lib =
  contourArea :: "'c \<Rightarrow> real"
  boundingRect :: "'c \<Rightarrow> rect"
  arcLength :: "'c \<Rightarrow> real"
  approxPolyDP :: "'c \<Rightarrow> real \<Rightarrow> point list"
  moments :: "'c \<Rightarrow> cv_moments"

text \<open>
  What steps 1 to 4 of a detection function hand to its loop: the contours that
  \<^verbatim>\<open>cv.findContours\<close> found in the mask, and the size of the image.
\<close>

record 'c capture =
  contours :: "'c list"
  canvasWidth :: real
  canvasHeight :: real

section \<open>Detection: \<^verbatim>\<open>detectContours\<close> of \<^verbatim>\<open>src/src/opencvUtils.js\<close>\<close>

record image_boundary =
  b_left :: real
  b_right :: real
  b_top :: real
  b_bottom :: real

definition imageBoundary :: "real \<Rightarrow> real \<Rightarrow> image_boundary" where
  "imageBoundary w h = \<lparr>b_left = 10, b_right = w - 10, b_top = 10, b_bottom = h - 10\<rparr>"

text \<open>The condition of the boundary check (\<^verbatim>\<open>FILTER 2\<close>).\<close>

definition touches_border :: "image_boundary \<Rightarrow> rect \<Rightarrow> bool" where
  "touches_border b r =
     (rect_x r \<le> b_left b \<or> rect_y r \<le> b_top b \<or>
      rect_x r + width r \<ge> b_right b \<or>
      rect_y r + height r \<ge> b_bottom b)"

text \<open>
  The loop that builds \<^verbatim>\<open>edgesList\<close>: one edge from each vertex \<open>j\<close> to vertex
  \<open>(j + 1) % points.length\<close>.
\<close>

definition edgesList :: "point list \<Rightarrow> edge list" where
  "edgesList pts =
     map (\<lambda>j. let p1 = pts ! j; p2 = pts ! ((j + 1) mod length pts)
              in \<lparr>edge_start = p1, edge_end = p2,
                  pixelLength = calculatePixelDistance p1 p2, realLength = None\<rparr>)
         [0..<length pts]"

definition palette8 :: "string list" where
  "palette8 = [''#3B82F6'', ''#EF4444'', ''#10B981'', ''#F59E0B'',
               ''#8B5CF6'', ''#EC4899'', ''#06B6D4'', ''#F97316'']"

text \<open>\<^verbatim>\<open>e => ({pixelLength: e.pixelLength, realLength: null})\<close>\<close>

definition unmeasured_edge :: "edge \<Rightarrow> edge_measure" where
  "unmeasured_edge e = \<lparr>m_pixelLength = pixelLength e, m_realLength = None\<rparr>"

text \<open>
  One pass of the \<^verbatim>\<open>for\<close> loop over the contours: \<open>i\<close> is the loop index,
  \<open>now\<close> the value \<^verbatim>\<open>Date.now()\<close> has in this pass, \<open>objects\<close> the array so far.
  Each \<^verbatim>\<open>continue\<close> returns the array as it is.
\<close>

definition detect_pass ::
  "'c cv_lib \<Rightarrow> real \<Rightarrow> real \<Rightarrow> nat \<Rightarrow> nat \<Rightarrow> 'c \<Rightarrow> detected_object list \<Rightarrow> detected_object list" where
  "detect_pass cv w h now i c objects =
     (let imageArea = w * h;
          area = contourArea cv c
      in if area < 3000 \<or> area > imageArea * 0.5 then objects
         else
           let rect = boundingRect cv c
           in if touches_border (imageBoundary w h) rect then objects
              else if width rect < 30 \<or> height rect < 30 then objects
              else
                let epsilon = 0.015 * arcLength cv c;
                    pts = approxPolyDP cv c epsilon;
                    perimeter = arcLength cv c;
                    circ = js_div (4 * pi * area) (perimeter * perimeter);
                    aspectRatio = width rect / height rect;
                    coin = (js_gt circ (Fin 0.60) \<and> area > 2500 \<and> area < imageArea * 0.4 \<and>
                            aspectRatio > 0.65 \<and> aspectRatio < 1.35);
                    es = edgesList pts
                in objects @
                   [\<lparr>obj_id = ''obj_'' @ show_nat now @ ''_'' @ show_nat i,
                     name = (if coin then ''Coin''
                             else ''Object '' @ show_nat (length (filter (\<lambda>ob. \<not> isCoin ob) objects) + 1)),
                     color = palette8 ! (length objects mod 8),
                     contour = \<lparr>rect_x = rect_x rect, rect_y = rect_y rect,
                                width = width rect, height = height rect\<rparr>,
                     points = pts,
                     edges = es,
                     area = area,
                     perimeter = perimeter,
                     isCoin = coin,
                     circularity = Some circ,
                     obj_pixelDistance = None,
                     measurements = \<lparr>m_edges = map unmeasured_edge es, m_perimeter = None\<rparr>\<rparr>])"

fun detect_loop ::
  "'c cv_lib \<Rightarrow> real \<Rightarrow> real \<Rightarrow> (nat \<Rightarrow> nat) \<Rightarrow> nat \<Rightarrow> 'c list \<Rightarrow> detected_object list \<Rightarrow> detected_object list" where
  "detect_loop cv w h clock i [] objects = objects"
| "detect_loop cv w h clock i (c # cs) objects =
     detect_loop cv w h clock (Suc i) cs (detect_pass cv w h (clock i) i c objects)"

text \<open>
  \<^verbatim>\<open>detectContours\<close>.  \<open>ready\<close> is what \<^verbatim>\<open>await initOpenCV()\<close> gives: the library, or
  \<open>Inl\<close> the message it rejects with, which is outside the \<^verbatim>\<open>try\<close> and leaves the
  function as it is.  \<open>loaded\<close> is what loading the image and steps 1 to 4 give: the
  contours, or \<open>Inl\<close> the message of an exception thrown there, which the
  \<^verbatim>\<open>catch\<close> rethrows with a prefix.  A result \<open>Inl\<close> is a rejected promise.
\<close>

definition detectContours ::
  "string + 'c cv_lib \<Rightarrow> (nat \<Rightarrow> nat) \<Rightarrow> string + 'c capture \<Rightarrow> string + detected_object list" where
  "detectContours ready clock loaded =
     (case ready of
        Inl e \<Rightarrow> Inl e
      | Inr cv \<Rightarrow>
          (case loaded of
             Inl e \<Rightarrow> Inl (''Contour detection failed during processing: '' @ e)
           | Inr cap \<Rightarrow>
               Inr (detect_loop cv (canvasWidth cap) (canvasHeight cap) clock 0 (contours cap) [])))"

section \<open>Detection: \<^verbatim>\<open>detectContours\<close> of \<^verbatim>\<open>src/src/utils/opencvUtils.js\<close>\<close>

text \<open>\<^verbatim>\<open>Math.hypot\<close> of two finite numbers.\<close>

definition js_hypot :: "real \<Rightarrow> real \<Rightarrow> real" where
  "js_hypot a b = sqrt (a * a + b * b)"

text \<open>The option \<^verbatim>\<open>coin\<close> of this variant, when it is given: a circle to leave out.\<close>

record coin_circle =
  coin_x :: real
  coin_y :: real
  coin_r :: real

definition edgesArr :: "point list \<Rightarrow> edge list" where
  "edgesArr pts =
     map (\<lambda>p. let p1 = pts ! p; p2 = pts ! ((p + 1) mod length pts)
              in \<lparr>edge_start = p1, edge_end = p2,
                  pixelLength = js_hypot (pt_x p2 - pt_x p1) (pt_y p2 - pt_y p1),
                  realLength = None\<rparr>)
         [0..<length pts]"

text \<open>
  One pass of the loop of this variant.  The perimeter is
  \<^verbatim>\<open>edgesArr.reduce((s,e) => s + e.pixelLength, 0)\<close>.
\<close>

definition detect_pass_utils ::
  "'c cv_lib \<Rightarrow> coin_circle option \<Rightarrow> real \<Rightarrow> real \<Rightarrow> nat \<Rightarrow> nat \<Rightarrow> 'c \<Rightarrow>
   detected_object list \<Rightarrow> detected_object list" where
  "detect_pass_utils cv coin w h now i c objects =
     (let imageArea = w * h;
          area = contourArea cv c
      in if area < 700 \<or> area > imageArea * 0.8 then objects
         else
           let M = moments cv c;
               centroid = (if m00 M \<noteq> 0 then Some (m10 M / m00 M, m01 M / m00 M) else None);
               skip = (case (coin, centroid) of
                         (Some k, Some (cx, cy)) \<Rightarrow>
                           js_hypot (cx - coin_x k) (cy - coin_y k) < coin_r k * 1.2
                       | _ \<Rightarrow> False)
           in if skip then objects
              else
                let peri = arcLength cv c;
                    approx = approxPolyDP cv c (0.015 * peri);
                    circ = js_div (4 * pi * area) (peri * peri);
                    rect = boundingRect cv c;
                    es = edgesArr approx;
                    perimeter = foldl (\<lambda>s e. s + pixelLength e) 0 es
                in objects @
                   [\<lparr>obj_id = ''obj_'' @ show_nat now @ ''_'' @ show_nat i,
                     name = ''Object '' @ show_nat (length objects + 1),
                     color = palette8 ! (length objects mod 8),
                     contour = \<lparr>rect_x = rect_x rect, rect_y = rect_y rect,
                                width = width rect, height = height rect\<rparr>,
                     points =
                       (if length approx \<noteq> 0 then approx
                        else [\<lparr>pt_x = rect_x rect, pt_y = rect_y rect\<rparr>,
                              \<lparr>pt_x = rect_x rect + width rect, pt_y = rect_y rect\<rparr>,
                              \<lparr>pt_x = rect_x rect + width rect, pt_y = rect_y rect + height rect\<rparr>,
                              \<lparr>pt_x = rect_x rect, pt_y = rect_y rect + height rect\<rparr>]),
                     edges = es,
                     area = area,
                     perimeter = perimeter,
                     isCoin = False,
                     circularity = Some circ,
                     obj_pixelDistance = None,
                     measurements = \<lparr>m_edges = map unmeasured_edge es, m_perimeter = None\<rparr>\<rparr>])"

fun detect_loop_utils ::
  "'c cv_lib \<Rightarrow> coin_circle option \<Rightarrow> real \<Rightarrow> real \<Rightarrow> (nat \<Rightarrow> nat) \<Rightarrow> nat \<Rightarrow> 'c list \<Rightarrow>
   detected_object list \<Rightarrow> detected_object list" where
  "detect_loop_utils cv coin w h clock i [] objects = objects"
| "detect_loop_utils cv coin w h clock i (c # cs) objects =
     detect_loop_utils cv coin w h clock (Suc i) cs
       (detect_pass_utils cv coin w h (clock i) i c objects)"

text \<open>
  \<^verbatim>\<open>detectContours\<close> of this variant: a failure of \<^verbatim>\<open>initOpenCV\<close> or of the image
  load is outside its \<^verbatim>\<open>try\<close>, and its \<^verbatim>\<open>catch\<close> rethrows what it caught, so every
  error leaves the function unchanged.
\<close>

definition detectContours_utils ::
  "string + 'c cv_lib \<Rightarrow> coin_circle option \<Rightarrow> (nat \<Rightarrow> nat) \<Rightarrow> string + 'c capture \<Rightarrow>
   string + detected_object list" where
  "detectContours_utils ready coin clock loaded =
     (case ready of
        Inl e \<Rightarrow> Inl e
      | Inr cv \<Rightarrow>
          (case loaded of
             Inl e \<Rightarrow> Inl e
           | Inr cap \<Rightarrow>
               Inr (detect_loop_utils cv coin (canvasWidth cap) (canvasHeight cap) clock 0
                      (contours cap) [])))"

section \<open>Coin search: \<^verbatim>\<open>detectCoin\<close> of \<^verbatim>\<open>src/src/opencvUtils.js\<close>\<close>

record coin_result =
  pixelDiameter :: "real option"
  found :: bool
  message :: string

text \<open>
  One pass of the loop; the pair is \<^verbatim>\<open>coinDiameter\<close> (\<open>None\<close> is \<^verbatim>\<open>null\<close>) and
  \<^verbatim>\<open>bestCircularity\<close>.
\<close>

definition coin_pass ::
  "'c cv_lib \<Rightarrow> real \<Rightarrow> real \<Rightarrow> 'c \<Rightarrow> real option \<times> jsnum \<Rightarrow> real option \<times> jsnum" where
  "coin_pass cv w h c st =
     (let imageArea = w * h;
          area = contourArea cv c
      in if area < 3000 \<or> area > imageArea * 0.4 then st
         else
           let rect = boundingRect cv c
           in if width rect < 40 \<or> height rect < 40 then st
              else if touches_border (imageBoundary w h) rect then st
              else
                let perimeter = arcLength cv c;
                    circ = js_div (4 * pi * area) (perimeter * perimeter);
                    aspectRatio = width rect / height rect
                in if js_gt circ (Fin 0.45) \<and> aspectRatio > 0.6 \<and> aspectRatio < 1.4
                   then (if js_gt circ (snd st)
                         then (Some (max (width rect) (height rect)), circ)
                         else st)
                   else st)"

fun coin_loop ::
  "'c cv_lib \<Rightarrow> real \<Rightarrow> real \<Rightarrow> 'c list \<Rightarrow> real option \<times> jsnum \<Rightarrow> real option \<times> jsnum" where
  "coin_loop cv w h [] st = st"
| "coin_loop cv w h (c # cs) st = coin_loop cv w h cs (coin_pass cv w h c st)"

text \<open>
  \<^verbatim>\<open>detectCoin\<close>, with \<open>ready\<close> and \<open>loaded\<close> as for \<^verbatim>\<open>detectContours\<close>.  Its
  \<^verbatim>\<open>catch\<close> returns an object instead of rethrowing.
\<close>

definition detectCoin :: "string + 'c cv_lib \<Rightarrow> string + 'c capture \<Rightarrow> string + coin_result" where
  "detectCoin ready loaded =
     (case ready of
        Inl e \<Rightarrow> Inl e
      | Inr cv \<Rightarrow>
          (case loaded of
             Inl e \<Rightarrow>
               Inr \<lparr>pixelDiameter = None, found = False,
                    message = ''Coin detection failed during processing: '' @ e\<rparr>
           | Inr cap \<Rightarrow>
               let coinDiameter =
                     fst (coin_loop cv (canvasWidth cap) (canvasHeight cap) (contours cap)
                            (None, Fin 0))
               in if truthy coinDiameter
                  then Inr \<lparr>pixelDiameter = coinDiameter, found = True,
                            message = ''Coin successfully detected for calibration.''\<rparr>
                  else Inr \<lparr>pixelDiameter = None, found = False,
                            message = ''No suitable coin found for calibration.''\<rparr>))"

section \<open>Coin search: \<^verbatim>\<open>detectCoin\<close> of \<^verbatim>\<open>src/unnamed/part_000\<close>\<close>

text \<open>
  The loop stops (\<^verbatim>\<open>break\<close>) at the first contour whose area is between 1000 and
  50000 and whose circularity is above 0.7.
\<close>

fun coin_loop_part_000 :: "'c cv_lib \<Rightarrow> 'c list \<Rightarrow> real option" where
  "coin_loop_part_000 cv [] = None"
| "coin_loop_part_000 cv (c # cs) =
     (let area = contourArea cv c
      in if area < 1000 \<or> area > 50000 then coin_loop_part_000 cv cs
         else
           let perimeter = arcLength cv c;
               circ = js_div (4 * pi * area) (perimeter * perimeter)
           in if js_gt circ (Fin 0.7)
              then (let rect = boundingRect cv c in Some (max (width rect) (height rect)))
              else coin_loop_part_000 cv cs)"

text \<open>
  This \<^verbatim>\<open>detectCoin\<close> promises a number: it resolves with the diameter, and rejects
  with \<^verbatim>\<open>new Error('No coin detected')\<close> when the loop found none.
\<close>

definition detectCoin_part_000 :: "string + 'c cv_lib \<Rightarrow> string + 'c capture \<Rightarrow> string + real" where
  "detectCoin_part_000 ready loaded =
     (case ready of
        Inl e \<Rightarrow> Inl e
      | Inr cv \<Rightarrow>
          (case loaded of
             Inl e \<Rightarrow> Inl e
           | Inr cap \<Rightarrow>
               (case coin_loop_part_000 cv (contours cap) of
                  None \<Rightarrow> Inl ''No coin detected''
                | Some coinDiameter \<Rightarrow>
                    if truthy (Some coinDiameter) then Inr coinDiameter
                    else Inl ''No coin detected'')))"

section \<open>Manual polygons: \<^verbatim>\<open>src/src/hooks/useDetectionState.jsx\<close>\<close>

datatype ui_mode = Select | AutoCoin | ManualCoin | CreateObject

text \<open>
  The reference object that a calibration puts in front of the object list.  Every
  literal that builds one has \<^verbatim>\<open>isCoin: true\<close>; the functions below read nothing else
  of it.
\<close>

record coin_reference =
  ref_id :: string
  ref_pixelDistance :: "real option"
  ref_center :: "point option"

datatype scene_object = Shape detected_object | Reference coin_reference

fun is_coin :: "scene_object \<Rightarrow> bool" where
  "is_coin (Shape ob) = isCoin ob"
| "is_coin (Reference r) = True"

text \<open>
  The state of the provider, its fields prefixed with \<open>st_\<close>.  The fields about
  the image and the progress text are left to the record's extension.
\<close>

record detection_state =
  st_objects :: "scene_object list"
  st_ppm :: "real option"
  st_coinDiameter :: "real option"
  st_mode :: ui_mode
  st_manualCoinPoints :: "point list"
  st_creatingPoints :: "point list"

definition palette5 :: "string list" where
  "palette5 = [''#3B82F6'', ''#EF4444'', ''#10B981'', ''#F59E0B'', ''#8B5CF6'']"

text \<open>
  \<^verbatim>\<open>Math.min(...xs)\<close> and \<^verbatim>\<open>Math.max(...xs)\<close>; they are only called on the
  coordinates of three points or more.
\<close>

definition Math_min :: "real list \<Rightarrow> real" where
  "Math_min xs = fold min (tl xs) (hd xs)"

definition Math_max :: "real list \<Rightarrow> real" where
  "Math_max xs = fold max (tl xs) (hd xs)"

text \<open>
  The shoelace loop:
  \<^verbatim>\<open>area += pts[i].x * pts[j].y - pts[j].x * pts[i].y\<close> with \<^verbatim>\<open>j = (i + 1) % pts.length\<close>.
\<close>

definition shoelace_loop :: "point list \<Rightarrow> real" where
  "shoelace_loop pts =
     foldl (\<lambda>area i. let j = (i + 1) mod length pts
                      in area + (pt_x (pts ! i) * pt_y (pts ! j) - pt_x (pts ! j) * pt_y (pts ! i)))
           0 [0..<length pts]"

text \<open>The running sum \<^verbatim>\<open>perimeter += len\<close> of the edge loop.\<close>

definition perimeter_loop :: "edge list \<Rightarrow> real" where
  "perimeter_loop es = foldl (\<lambda>perimeter e. perimeter + pixelLength e) 0 es"

text \<open>
  The object \<^verbatim>\<open>final\<close> that the updater of \<^verbatim>\<open>finishManualObject\<close> builds from
  the points \<open>pts\<close>, given \<^verbatim>\<open>prev.objects\<close> and \<^verbatim>\<open>prev.ppm\<close>; \<open>now\<close> is
  \<^verbatim>\<open>Date.now()\<close>.
\<close>

definition manualObject ::
  "nat \<Rightarrow> point list \<Rightarrow> scene_object list \<Rightarrow> real option \<Rightarrow> detected_object" where
  "manualObject now pts prev_objects prev_ppm =
     (let xs = map pt_x pts;
          ys = map pt_y pts;
          minX = Math_min xs;
          maxX = Math_max xs;
          minY = Math_min ys;
          maxY = Math_max ys;
          es = edgesList pts;
          perimeter = perimeter_loop es;
          area = \<bar>shoelace_loop pts\<bar> / 2;
          nextIndex = length (filter (\<lambda>ob. \<not> is_coin ob) prev_objects) + 1;
          newObj =
            \<lparr>obj_id = ''manual_'' @ show_nat now @ ''_'' @ show_nat nextIndex,
             name = ''Object '' @ show_nat nextIndex,
             color = palette5 ! (nextIndex mod 5),
             contour = \<lparr>rect_x = minX, rect_y = minY,
                        width = maxX - minX, height = maxY - minY\<rparr>,
             points = pts,
             edges = es,
             area = area,
             perimeter = perimeter,
             isCoin = False,
             circularity = None,
             obj_pixelDistance = None,
             measurements = \<lparr>m_edges = map unmeasured_edge es,
                             m_perimeter = Some perimeter\<rparr>\<rparr>
      in if truthy prev_ppm then applyPPMToObject newObj prev_ppm else newObj)"

text \<open>
  The updater that \<^verbatim>\<open>finishManualObject(points)\<close> hands to \<^verbatim>\<open>setState\<close>, applied to
  the state \<open>prev\<close>.  \<open>pointsArg = None\<close> is the default \<^verbatim>\<open>null\<close>, for which
  \<^verbatim>\<open>points || prev.creatingPoints\<close> takes the points of the state; any other
  argument is taken to be an array of points.  The first component of the result lists
  the messages shown by \<^verbatim>\<open>alert\<close>.
\<close>

definition finishManualObject ::
  "nat \<Rightarrow> point list option \<Rightarrow> 'a detection_state_scheme \<Rightarrow> string list \<times> 'a detection_state_scheme" where
  "finishManualObject now pointsArg prev =
     (let pts = (case pointsArg of Some ps \<Rightarrow> ps | None \<Rightarrow> st_creatingPoints prev)
      in if length pts < 3
         then ([''At least 3 points are needed to create an object''],
               prev\<lparr>st_creatingPoints := []\<rparr>)
         else
           let final = manualObject now pts (st_objects prev) (st_ppm prev)
           in ([], prev\<lparr>st_objects := st_objects prev @ [Shape final],
                        st_creatingPoints := [],
                        st_mode := Select\<rparr>))"


section \<open>Manual polygons: \<^verbatim>\<open>src/unnamed/part_005\<close>\<close>

text \<open>
  The state variables of the component that the two functions read or set, prefixed
  with \<open>app_\<close>.
\<close>

record app_state =
  app_mode :: ui_mode
  app_ppm :: "real option"
  app_objects :: "scene_object list"
  app_selectedObjectId :: "string option"
  app_newObjectPoints :: "point list"
  app_nextObjectId :: nat

text \<open>
  The shoelace loop of this file adds and subtracts in two statements:
  \<^verbatim>\<open>area += points[i].x * points[j].y; area -= points[j].x * points[i].y;\<close>
\<close>

definition shoelace_loop_part_005 :: "point list \<Rightarrow> real" where
  "shoelace_loop_part_005 pts =
     foldl (\<lambda>area i. let j = (i + 1) mod length pts
                      in (area + pt_x (pts ! i) * pt_y (pts ! j)) - pt_x (pts ! j) * pt_y (pts ! i))
           0 [0..<length pts]"

text \<open>
  The object \<^verbatim>\<open>finalObject\<close> that \<^verbatim>\<open>finishCreatingObject(points)\<close> builds, given
  the state variables \<^verbatim>\<open>objects\<close>, \<^verbatim>\<open>ppm\<close> and \<^verbatim>\<open>nextObjectId\<close>.  The file
  imports \<^verbatim>\<open>applyPPMToObject\<close> from \<^verbatim>\<open>./opencvUtils\<close>; which of the copies that
  is cannot be told, so it is the parameter \<open>applyPPM\<close>.
\<close>

definition createdObject ::
  "(detected_object \<Rightarrow> real option \<Rightarrow> detected_object) \<Rightarrow> nat \<Rightarrow> point list \<Rightarrow>
   scene_object list \<Rightarrow> real option \<Rightarrow> nat \<Rightarrow> detected_object" where
  "createdObject applyPPM now pts cur_objects cur_ppm nextObjectId =
     (let xs = map pt_x pts;
          ys = map pt_y pts;
          minX = Math_min xs;
          maxX = Math_max xs;
          minY = Math_min ys;
          maxY = Math_max ys;
          es = edgesList pts;
          totalPerimeter = perimeter_loop es;
          area = \<bar>shoelace_loop_part_005 pts\<bar> / 2;
          nonCoinObjects = filter (\<lambda>ob. \<not> is_coin ob) cur_objects;
          nextObjectNumber = length nonCoinObjects + 1;
          newObject =
            \<lparr>obj_id = ''manual_'' @ show_nat now @ ''_'' @ show_nat nextObjectId,
             name = ''Object '' @ show_nat nextObjectNumber,
             color = palette8 ! ((nextObjectNumber - 1) mod length palette8),
             contour = \<lparr>rect_x = minX, rect_y = minY,
                        width = maxX - minX, height = maxY - minY\<rparr>,
             points = pts,
             edges = es,
             area = area,
             perimeter = totalPerimeter,
             isCoin = False,
             circularity = None,
             obj_pixelDistance = None,
             measurements = \<lparr>m_edges = map unmeasured_edge es, m_perimeter = None\<rparr>\<rparr>
      in if truthy cur_ppm then applyPPM newObject cur_ppm else newObject)"

text \<open>\<^verbatim>\<open>finishCreatingObject(points)\<close>, on the state \<open>st\<close> of the component.\<close>

definition finishCreatingObject ::
  "(detected_object \<Rightarrow> real option \<Rightarrow> detected_object) \<Rightarrow> nat \<Rightarrow> point list \<Rightarrow>
   'a app_state_scheme \<Rightarrow> string list \<times> 'a app_state_scheme" where
  "finishCreatingObject applyPPM now pts st =
     (if length pts < 3
      then ([''At least 3 points are needed to create an object''],
            st\<lparr>app_newObjectPoints := []\<rparr>)
      else
        let finalObject =
              createdObject applyPPM now pts (app_objects st) (app_ppm st) (app_nextObjectId st)
        in ([], st\<lparr>app_objects := app_objects st @ [Shape finalObject],
                   app_nextObjectId := app_nextObjectId st + 1,
                   app_newObjectPoints := [],
                   app_mode := Select,
                   app_selectedObjectId := Some (obj_id finalObject)\<rparr>))"


section \<open>The words of the specification\<close>

text \<open>
  The functions above are read off the source.  The definitions of this section follow
  the specification instead, to compare the two.  A value rounded to 2 decimal places:
\<close>

definition round_2dp :: "real \<Rightarrow> real" where
  "round_2dp v = of_int \<lfloor>v * 100 + 1 / 2\<rfloor> / 100"

text \<open>
  A bounding box that touches or crosses within the margin of 10 pixels of an edge of
  an image \<open>w\<close> wide and \<open>h\<close> high: one of its four sides is at most 10 pixels away from
  the image edge it faces, or beyond it.
\<close>

definition within_margin :: "real \<Rightarrow> real \<Rightarrow> rect \<Rightarrow> bool" where
  "within_margin w h r =
     (rect_x r - 0 \<le> 10 \<or> rect_y r - 0 \<le> 10 \<or>
      w - (rect_x r + width r) \<le> 10 \<or> h - (rect_y r + height r) \<le> 10)"

text \<open>
  The shoelace value \<^verbatim>\<open>|sum (x_i * y_(i+1) - x_(i+1) * y_i)| / 2\<close> over the closed loop of the points,
  the sum of the Euclidean lengths of the edges between consecutive points, the edge
  from the last point back to the first among them, and the box that spans from the
  least to the greatest coordinate of the points.
\<close>

definition shoelace_area :: "point list \<Rightarrow> real" where
  "shoelace_area pts =
     \<bar>\<Sum>i < length pts.
         pt_x (pts ! i) * pt_y (pts ! ((i + 1) mod length pts)) -
         pt_x (pts ! ((i + 1) mod length pts)) * pt_y (pts ! i)\<bar> / 2"

definition euclidean :: "point \<Rightarrow> point \<Rightarrow> real" where
  "euclidean a b = sqrt ((pt_x b - pt_x a)\<^sup>2 + (pt_y b - pt_y a)\<^sup>2)"

definition loop_length :: "point list \<Rightarrow> real" where
  "loop_length pts =
     (\<Sum>i < length pts. euclidean (pts ! i) (pts ! ((i + 1) mod length pts)))"

definition extent :: "point list \<Rightarrow> rect" where
  "extent pts =
     \<lparr>rect_x = Min (pt_x ` set pts),
      rect_y = Min (pt_y ` set pts),
      width = Max (pt_x ` set pts) - Min (pt_x ` set pts),
      height = Max (pt_y ` set pts) - Min (pt_y ` set pts)\<rparr>"

section \<open>Predicates that name the paths through the loops\<close>

text \<open>
  What an object that a pass of \<^verbatim>\<open>detectContours\<close> pushes for the contour \<open>c\<close> has
  in its fields: in \<^verbatim>\<open>src/src/opencvUtils.js\<close> (\<open>traced\<close>) and in
  \<^verbatim>\<open>src/src/utils/opencvUtils.js\<close> (\<open>traced_utils\<close>).
\<close>

definition traced :: "'c cv_lib \<Rightarrow> real \<Rightarrow> real \<Rightarrow> 'c \<Rightarrow> detected_object \<Rightarrow> bool" where
  "traced cv w h c ob =
     (\<not> touches_border (imageBoundary w h) (boundingRect cv c) \<and>
      contour ob = boundingRect cv c \<and>
      area ob = contourArea cv c \<and>
      perimeter ob = arcLength cv c \<and>
      points ob = approxPolyDP cv c (0.015 * arcLength cv c) \<and>
      edges ob = edgesList (points ob) \<and>
      circularity ob = Some (js_div (4 * pi * area ob) (perimeter ob * perimeter ob)))"

definition traced_utils :: "'c cv_lib \<Rightarrow> 'c \<Rightarrow> detected_object \<Rightarrow> bool" where
  "traced_utils cv c ob =
     (edges ob = edgesArr (approxPolyDP cv c (0.015 * arcLength cv c)) \<and>
      perimeter ob = sum_list (map pixelLength (edges ob)))"

text \<open>
  A contour that passes the four coin filters of \<^verbatim>\<open>detectCoin\<close> in
  \<^verbatim>\<open>src/src/opencvUtils.js\<close>, and one that passes the two tests of \<^verbatim>\<open>detectCoin\<close>
  in \<^verbatim>\<open>part_000\<close>.
\<close>

definition coin_candidate :: "'c cv_lib \<Rightarrow> real \<Rightarrow> real \<Rightarrow> 'c \<Rightarrow> bool" where
  "coin_candidate cv w h c =
     (3000 \<le> contourArea cv c \<and> contourArea cv c \<le> w * h * 0.4 \<and>
      40 \<le> width (boundingRect cv c) \<and> 40 \<le> height (boundingRect cv c) \<and>
      \<not> touches_border (imageBoundary w h) (boundingRect cv c) \<and>
      js_gt (js_div (4 * pi * contourArea cv c) (arcLength cv c * arcLength cv c)) (Fin 0.45) \<and>
      width (boundingRect cv c) / height (boundingRect cv c) > 0.6 \<and>
      width (boundingRect cv c) / height (boundingRect cv c) < 1.4)"

definition coin_candidate_part_000 :: "'c cv_lib \<Rightarrow> 'c \<Rightarrow> bool" where
  "coin_candidate_part_000 cv c =
     (1000 \<le> contourArea cv c \<and> contourArea cv c \<le> 50000 \<and>
      js_gt (js_div (4 * pi * contourArea cv c) (arcLength cv c * arcLength cv c)) (Fin 0.7))"

text \<open>
  What holds of \<^verbatim>\<open>coinDiameter\<close> and \<^verbatim>\<open>bestCircularity\<close> between two passes of the
  coin loop: no diameter yet and the best circularity still 0, or a diameter of 40 pixels
  at least.
\<close>

definition coin_inv :: "real option \<times> jsnum \<Rightarrow> bool" where
  "coin_inv st = (case fst st of None \<Rightarrow> snd st = Fin 0 | Some d \<Rightarrow> 40 \<le> d)"

section \<open>Example inputs\<close>

text \<open>
  Two contours, each given by what OpenCV reports for it.  \<open>DentedBar\<close> is the outline
  (20,20), (100,20), (100,23), (104,23), (104,20), (620,20), (620,120), (20,120) of a bar of
  600 by 100 pixels with a dent 4 wide and 3 deep in its upper side: its area is
  60000 - 12, its length 1400 + 6, and a simplification with tolerance 0.015 * 1406 keeps
  the four corners.  \<open>EdgeDisc\<close> is a disc of radius 50 around (50, 250), which touches
  pixel column 0.  \<open>InnerSquare\<close> is a square of 100 by 100 pixels with its upper left
  corner at (100, 100).
\<close>

datatype example_contour = DentedBar | EdgeDisc | InnerSquare

definition example_cv :: "example_contour cv_lib" where
  "example_cv =
     \<lparr>contourArea = (\<lambda>c. case c of DentedBar \<Rightarrow> 59988 | EdgeDisc \<Rightarrow> 7850 | InnerSquare \<Rightarrow> 10000),
      boundingRect = (\<lambda>c. case c of
           DentedBar \<Rightarrow> \<lparr>rect_x = 20, rect_y = 20, width = 601, height = 101\<rparr>
         | EdgeDisc \<Rightarrow> \<lparr>rect_x = 0, rect_y = 200, width = 101, height = 101\<rparr>
         | InnerSquare \<Rightarrow> \<lparr>rect_x = 100, rect_y = 100, width = 101, height = 101\<rparr>),
      arcLength = (\<lambda>c. case c of DentedBar \<Rightarrow> 1406 | EdgeDisc \<Rightarrow> 330 | InnerSquare \<Rightarrow> 400),
      approxPolyDP = (\<lambda>c eps. case c of
           DentedBar \<Rightarrow> [\<lparr>pt_x = 20, pt_y = 20\<rparr>, \<lparr>pt_x = 620, pt_y = 20\<rparr>,
                         \<lparr>pt_x = 620, pt_y = 120\<rparr>, \<lparr>pt_x = 20, pt_y = 120\<rparr>]
         | EdgeDisc \<Rightarrow> [\<lparr>pt_x = 50, pt_y = 200\<rparr>, \<lparr>pt_x = 100, pt_y = 250\<rparr>,
                        \<lparr>pt_x = 50, pt_y = 300\<rparr>, \<lparr>pt_x = 0, pt_y = 250\<rparr>]
         | InnerSquare \<Rightarrow> [\<lparr>pt_x = 100, pt_y = 100\<rparr>, \<lparr>pt_x = 200, pt_y = 100\<rparr>,
                           \<lparr>pt_x = 200, pt_y = 200\<rparr>, \<lparr>pt_x = 100, pt_y = 200\<rparr>]),
      moments = (\<lambda>c. case c of
           DentedBar \<Rightarrow> \<lparr>m00 = 59988, m10 = 19198776, m01 = 4199742\<rparr>
         | EdgeDisc \<Rightarrow> \<lparr>m00 = 7850, m10 = 392500, m01 = 1962500\<rparr>
         | InnerSquare \<Rightarrow> \<lparr>m00 = 10000, m10 = 1500000, m01 = 1500000\<rparr>)\<rparr>"

definition example_clock :: "nat \<Rightarrow> nat" where
  "example_clock i = 1700000000000 + i"

text \<open>An image of 800 by 600 pixels that shows the bar.\<close>

definition bar_capture :: "example_contour capture" where
  "bar_capture = \<lparr>contours = [DentedBar], canvasWidth = 800, canvasHeight = 600\<rparr>"

text \<open>An image of 500 by 500 pixels that shows the disc at its left edge, and the square.\<close>

definition edge_capture :: "example_contour capture" where
  "edge_capture = \<lparr>contours = [EdgeDisc, InnerSquare], canvasWidth = 500, canvasHeight = 500\<rparr>"

definition bar_detected :: "detected_object list" where
  "bar_detected = detect_loop example_cv 800 600 example_clock 0 [DentedBar] []"

definition bar_detected_utils :: "detected_object list" where
  "bar_detected_utils = detect_loop_utils example_cv None 800 600 example_clock 0 [DentedBar] []"

text \<open>The square of the specification, and the object a manual polygon makes of it.\<close>

definition square_points :: "point list" where
  "square_points = [\<lparr>pt_x = 0, pt_y = 0\<rparr>, \<lparr>pt_x = 10, pt_y = 0\<rparr>,
                    \<lparr>pt_x = 10, pt_y = 10\<rparr>, \<lparr>pt_x = 0, pt_y = 10\<rparr>]"

definition square_edges :: "edge list" where
  "square_edges =
     [\<lparr>edge_start = \<lparr>pt_x = 0, pt_y = 0\<rparr>, edge_end = \<lparr>pt_x = 10, pt_y = 0\<rparr>,
       pixelLength = 10, realLength = None\<rparr>,
      \<lparr>edge_start = \<lparr>pt_x = 10, pt_y = 0\<rparr>, edge_end = \<lparr>pt_x = 10, pt_y = 10\<rparr>,
       pixelLength = 10, realLength = None\<rparr>,
      \<lparr>edge_start = \<lparr>pt_x = 10, pt_y = 10\<rparr>, edge_end = \<lparr>pt_x = 0, pt_y = 10\<rparr>,
       pixelLength = 10, realLength = None\<rparr>,
      \<lparr>edge_start = \<lparr>pt_x = 0, pt_y = 10\<rparr>, edge_end = \<lparr>pt_x = 0, pt_y = 0\<rparr>,
       pixelLength = 10, realLength = None\<rparr>]"

definition square_object :: detected_object where
  "square_object =
     \<lparr>obj_id = ''manual_1700000000000_1'',
      name = ''Object 1'',
      color = ''#EF4444'',
      contour = \<lparr>rect_x = 0, rect_y = 0, width = 10, height = 10\<rparr>,
      points = square_points,
      edges = square_edges,
      area = 100,
      perimeter = 40,
      isCoin = False,
      circularity = None,
      obj_pixelDistance = None,
      measurements = \<lparr>m_edges = map unmeasured_edge square_edges, m_perimeter = Some 40\<rparr>\<rparr>"

text \<open>The provider and the component before the first click of a new polygon.\<close>

definition empty_state :: detection_state where
  "empty_state =
     \<lparr>st_objects = [], st_ppm = None, st_coinDiameter = None, st_mode = CreateObject,
      st_manualCoinPoints = [], st_creatingPoints = []\<rparr>"

definition empty_app :: app_state where
  "empty_app =
     \<lparr>app_mode = CreateObject, app_ppm = None, app_objects = [],
      app_selectedObjectId = None, app_newObjectPoints = [], app_nextObjectId = 1\<rparr>"





section \<open>Properties of the calibration\<close>

lemma applyPPMToObject_pos:
  "0 < p \<Longrightarrow>
   applyPPMToObject obj (Some p) =
     obj\<lparr>edges := map (scale_edge p) (edges obj),
         measurements :=
           \<lparr>m_edges = map measure_of_edge (map (scale_edge p) (edges obj)),
            m_perimeter = Some (js_round ((perimeter obj / p) * 100) / 100)\<rparr>\<rparr>"
  by (simp add: applyPPMToObject_def truthy_def Let_def)

lemma applyPPMToObject_part_000_pos:
  "0 < p \<Longrightarrow>
   applyPPMToObject_part_000 obj (Some p) =
     obj\<lparr>measurements :=
           \<lparr>m_edges = map measure_of_edge (map (scale_edge p) (edges obj)),
            m_perimeter = Some (js_round ((perimeter obj / p) * 100) / 100)\<rparr>\<rparr>"
  by (simp add: applyPPMToObject_part_000_def truthy_def Let_def)

lemma realLength_scale_edge: "realLength (scale_edge p e) = Some (round_2dp (pixelLength e / p))"
  unfolding scale_edge_def js_round_def round_2dp_def by simp

lemma pixelLength_scale_edge: "pixelLength (scale_edge p e) = pixelLength e"
  by (simp add: scale_edge_def)

lemma scale_edge_twice: "scale_edge p (scale_edge q e) = scale_edge p e"
  by (simp add: scale_edge_def)

lemma scale_edge_forgets: "scale_edge p (e\<lparr>realLength := r\<rparr>) = scale_edge p e"
  by (simp add: scale_edge_def)

text \<open>
  In \<^verbatim>\<open>src/src/opencvUtils.js\<close> a positive \<^verbatim>\<open>ppm\<close> gives every edge a
  \<^verbatim>\<open>realLength\<close> computed from its \<^verbatim>\<open>pixelLength\<close> and \<^verbatim>\<open>ppm\<close> alone, and
  \<^verbatim>\<open>measurements.perimeter\<close> a value computed from \<^verbatim>\<open>perimeter\<close> and \<^verbatim>\<open>ppm\<close>:
  in the exact arithmetic of the model, the quotient rounded to 2 decimal places.
\<close>

lemma applyPPMToObject_recomputes:
  assumes "0 < p"
  shows "map realLength (edges (applyPPMToObject obj (Some p))) =
           map (\<lambda>e. Some (round_2dp (pixelLength e / p))) (edges obj)"
    and "m_perimeter (measurements (applyPPMToObject obj (Some p))) =
           Some (round_2dp (perimeter obj / p))"
    and "m_edges (measurements (applyPPMToObject obj (Some p))) =
           map (\<lambda>e. \<lparr>m_pixelLength = pixelLength e,
                      m_realLength = Some (round_2dp (pixelLength e / p))\<rparr>) (edges obj)"
proof -
  show "map realLength (edges (applyPPMToObject obj (Some p))) =
           map (\<lambda>e. Some (round_2dp (pixelLength e / p))) (edges obj)"
    using assms by (simp add: applyPPMToObject_pos realLength_scale_edge comp_def)
  show "m_perimeter (measurements (applyPPMToObject obj (Some p))) =
           Some (round_2dp (perimeter obj / p))"
    unfolding applyPPMToObject_pos [OF assms] js_round_def round_2dp_def by simp
  show "m_edges (measurements (applyPPMToObject obj (Some p))) =
           map (\<lambda>e. \<lparr>m_pixelLength = pixelLength e,
                      m_realLength = Some (round_2dp (pixelLength e / p))\<rparr>) (edges obj)"
    using assms
    by (simp add: applyPPMToObject_pos realLength_scale_edge pixelLength_scale_edge
        measure_of_edge_def comp_def)
qed

text \<open>
  There the result does not depend on a \<^verbatim>\<open>realLength\<close> or on \<^verbatim>\<open>measurements\<close>
  stored before: a second calibration replaces the first.
\<close>

lemma applyPPMToObject_ignores_realLength:
  assumes "0 < p"
  shows "applyPPMToObject (obj\<lparr>edges := map (\<lambda>e. e\<lparr>realLength := r e\<rparr>) (edges obj),
                               measurements := m\<rparr>) (Some p) =
         applyPPMToObject obj (Some p)"
  using assms by (simp add: applyPPMToObject_pos scale_edge_forgets comp_def)

lemma applyPPMToObject_not_cumulative:
  assumes "0 < p" and "0 < q"
  shows "applyPPMToObject (applyPPMToObject obj (Some q)) (Some p) = applyPPMToObject obj (Some p)"
  using assms by (simp add: applyPPMToObject_pos scale_edge_twice comp_def)

text \<open>
  C1.  The copy of \<^verbatim>\<open>applyPPMToObject\<close> in \<^verbatim>\<open>part_000\<close> does not do what the
  claim says of every edge.  For the square with edges of 10 pixels and \<^verbatim>\<open>ppm = 2\<close>
  it puts the lengths 5 into \<^verbatim>\<open>measurements.edges\<close> only: the \<^verbatim>\<open>realLength\<close> of
  each edge of the object it returns is still \<^verbatim>\<open>null\<close>, where the function of
  \<^verbatim>\<open>src/src/opencvUtils.js\<close> returns 5.
\<close>

theorem applyPPMToObject_part_000_keeps_edges:
  "map realLength (edges (applyPPMToObject_part_000 square_object (Some 2))) =
     [None, None, None, None] \<and>
   map m_realLength (m_edges (measurements (applyPPMToObject_part_000 square_object (Some 2)))) =
     [Some 5, Some 5, Some 5, Some 5] \<and>
   map realLength (edges (applyPPMToObject square_object (Some 2))) =
     [Some 5, Some 5, Some 5, Some 5]"
  by (simp add: applyPPMToObject_part_000_def applyPPMToObject_def truthy_def Let_def
      square_object_def square_edges_def scale_edge_def measure_of_edge_def js_round_def)

text \<open>
  C3.  Called with \<^verbatim>\<open>null\<close>, zero or a negative \<^verbatim>\<open>ppm\<close>, \<^verbatim>\<open>applyPPMToObject\<close>
  returns the object it was given, in \<^verbatim>\<open>src/src/opencvUtils.js\<close> and in
  \<^verbatim>\<open>part_000\<close> alike; so every edge keeps the \<^verbatim>\<open>realLength\<close> it had (the calls
  \<^verbatim>\<open>applyScale(object, null)\<close>, \<^verbatim>\<open>applyScale(object, 0)\<close> and
  \<^verbatim>\<open>applyScale(object, -5)\<close> of the specification are instances).
\<close>

theorem applyPPMToObject_noop:
  "ppm = None \<or> (\<exists>p. ppm = Some p \<and> p \<le> 0) \<Longrightarrow>
   applyPPMToObject obj ppm = obj \<and>
   applyPPMToObject_part_000 obj ppm = obj \<and>
   map realLength (edges (applyPPMToObject obj ppm)) = map realLength (edges obj) \<and>
   map realLength (edges (applyPPMToObject_part_000 obj ppm)) = map realLength (edges obj)"
  by (auto simp: applyPPMToObject_def applyPPMToObject_part_000_def)

theorem applyPPMToObject_noop_witness:
  "applyPPMToObject square_object None = square_object \<and>
   applyPPMToObject square_object (Some 0) = square_object \<and>
   applyPPMToObject square_object (Some (- 5)) = square_object \<and>
   applyPPMToObject_part_000 square_object (Some (- 5)) = square_object \<and>
   map realLength (edges (applyPPMToObject square_object (Some 0))) = [None, None, None, None]"
proof -
  have a: "(None :: real option) = None \<or> (\<exists>p. None = Some p \<and> p \<le> (0 :: real))"
    by simp
  have b: "Some (0 :: real) = None \<or> (\<exists>p. Some (0 :: real) = Some p \<and> p \<le> 0)"
    by simp
  have c: "Some (- 5 :: real) = None \<or> (\<exists>p. Some (- 5 :: real) = Some p \<and> p \<le> 0)"
    by simp
  show ?thesis
    using applyPPMToObject_noop [OF a, of square_object]
      applyPPMToObject_noop [OF b, of square_object]
      applyPPMToObject_noop [OF c, of square_object]
    by (simp add: square_object_def square_edges_def)
qed

text \<open>
  C10.  With a positive \<^verbatim>\<open>ppm\<close>, \<^verbatim>\<open>applyPPMToObject\<close> changes no field but
  \<^verbatim>\<open>edges\<close> and \<^verbatim>\<open>measurements\<close>: putting the two old values back gives the object
  that went in, so \<^verbatim>\<open>id\<close>, \<^verbatim>\<open>name\<close>, \<^verbatim>\<open>color\<close>, \<^verbatim>\<open>contour\<close>, \<^verbatim>\<open>points\<close>,
  \<^verbatim>\<open>area\<close>, \<^verbatim>\<open>perimeter\<close>, \<^verbatim>\<open>isCoin\<close> and \<^verbatim>\<open>circularity\<close> are those of the
  input.  The edges are as many as before and keep \<^verbatim>\<open>start\<close>, \<^verbatim>\<open>end\<close> and
  \<^verbatim>\<open>pixelLength\<close>: they differ from the old ones in \<^verbatim>\<open>realLength\<close> at most.  This holds
  for \<^verbatim>\<open>src/src/opencvUtils.js\<close> and for \<^verbatim>\<open>part_000\<close>, which leaves the edges as they
  are.
\<close>

theorem applyPPMToObject_frame:
  assumes "0 < p"
  shows "(applyPPMToObject obj (Some p))\<lparr>edges := edges obj, measurements := measurements obj\<rparr> = obj \<and>
         obj_id (applyPPMToObject obj (Some p)) = obj_id obj \<and>
         name (applyPPMToObject obj (Some p)) = name obj \<and>
         color (applyPPMToObject obj (Some p)) = color obj \<and>
         contour (applyPPMToObject obj (Some p)) = contour obj \<and>
         points (applyPPMToObject obj (Some p)) = points obj \<and>
         area (applyPPMToObject obj (Some p)) = area obj \<and>
         perimeter (applyPPMToObject obj (Some p)) = perimeter obj \<and>
         isCoin (applyPPMToObject obj (Some p)) = isCoin obj \<and>
         circularity (applyPPMToObject obj (Some p)) = circularity obj \<and>
         map edge_start (edges (applyPPMToObject obj (Some p))) = map edge_start (edges obj) \<and>
         map edge_end (edges (applyPPMToObject obj (Some p))) = map edge_end (edges obj) \<and>
         map pixelLength (edges (applyPPMToObject obj (Some p))) = map pixelLength (edges obj) \<and>
         map (\<lambda>e. e\<lparr>realLength := None\<rparr>) (edges (applyPPMToObject obj (Some p))) =
           map (\<lambda>e. e\<lparr>realLength := None\<rparr>) (edges obj) \<and>
         (applyPPMToObject_part_000 obj (Some p))\<lparr>measurements := measurements obj\<rparr> = obj"
  using assms
  by (simp add: applyPPMToObject_pos applyPPMToObject_part_000_pos scale_edge_def comp_def)

theorem applyPPMToObject_frame_witness:
  "(0 :: real) < 2 \<and>
   (applyPPMToObject square_object (Some 2))
     \<lparr>edges := square_edges, measurements := measurements square_object\<rparr> = square_object \<and>
   area (applyPPMToObject square_object (Some 2)) = 100 \<and>
   map pixelLength (edges (applyPPMToObject square_object (Some 2))) = [10, 10, 10, 10] \<and>
   (applyPPMToObject_part_000 square_object (Some 2))
     \<lparr>measurements := measurements square_object\<rparr> = square_object"
proof -
  have h: "(0 :: real) < 2"
    by simp
  show ?thesis
    using applyPPMToObject_frame [OF h, of square_object]
    by (simp add: square_object_def square_edges_def)
qed

section \<open>Properties of the detection\<close>

lemma dist_horizontal:
  "pt_y p1 = pt_y p2 \<Longrightarrow> calculatePixelDistance p1 p2 = \<bar>pt_x p2 - pt_x p1\<bar>"
  by (simp add: calculatePixelDistance_def Let_def)

lemma dist_vertical:
  "pt_x p1 = pt_x p2 \<Longrightarrow> calculatePixelDistance p1 p2 = \<bar>pt_y p2 - pt_y p1\<bar>"
  by (simp add: calculatePixelDistance_def Let_def)

lemma js_hypot_axis: "js_hypot a 0 = \<bar>a\<bar>" "js_hypot 0 b = \<bar>b\<bar>"
  by (simp_all add: js_hypot_def)

lemma edgesList_nth:
  "j < length pts \<Longrightarrow>
   edgesList pts ! j =
     \<lparr>edge_start = pts ! j, edge_end = pts ! ((j + 1) mod length pts),
      pixelLength = calculatePixelDistance (pts ! j) (pts ! ((j + 1) mod length pts)),
      realLength = None\<rparr>"
  by (simp add: edgesList_def Let_def)

lemma length_edgesList: "length (edgesList pts) = length pts"
  by (simp add: edgesList_def)

lemma edgesArr_nth:
  "j < length pts \<Longrightarrow>
   edgesArr pts ! j =
     \<lparr>edge_start = pts ! j, edge_end = pts ! ((j + 1) mod length pts),
      pixelLength = js_hypot (pt_x (pts ! ((j + 1) mod length pts)) - pt_x (pts ! j))
                             (pt_y (pts ! ((j + 1) mod length pts)) - pt_y (pts ! j)),
      realLength = None\<rparr>"
  by (simp add: edgesArr_def Let_def)

lemma length_edgesArr: "length (edgesArr pts) = length pts"
  by (simp add: edgesArr_def)

lemma edgesList_4:
  "edgesList [a, b, c, d] =
     [\<lparr>edge_start = a, edge_end = b, pixelLength = calculatePixelDistance a b, realLength = None\<rparr>,
      \<lparr>edge_start = b, edge_end = c, pixelLength = calculatePixelDistance b c, realLength = None\<rparr>,
      \<lparr>edge_start = c, edge_end = d, pixelLength = calculatePixelDistance c d, realLength = None\<rparr>,
      \<lparr>edge_start = d, edge_end = a, pixelLength = calculatePixelDistance d a, realLength = None\<rparr>]"
  by (simp add: edgesList_def Let_def upt_rec)

lemma edgesArr_4:
  "edgesArr [a, b, c, d] =
     [\<lparr>edge_start = a, edge_end = b,
       pixelLength = js_hypot (pt_x b - pt_x a) (pt_y b - pt_y a), realLength = None\<rparr>,
      \<lparr>edge_start = b, edge_end = c,
       pixelLength = js_hypot (pt_x c - pt_x b) (pt_y c - pt_y b), realLength = None\<rparr>,
      \<lparr>edge_start = c, edge_end = d,
       pixelLength = js_hypot (pt_x d - pt_x c) (pt_y d - pt_y c), realLength = None\<rparr>,
      \<lparr>edge_start = d, edge_end = a,
       pixelLength = js_hypot (pt_x a - pt_x d) (pt_y a - pt_y d), realLength = None\<rparr>]"
  by (simp add: edgesArr_def Let_def upt_rec)

lemma foldl_pixelLength: "foldl (\<lambda>s e. s + pixelLength e) a es = a + sum_list (map pixelLength es)"
  by (induction es arbitrary: a) simp_all

lemma within_margin_iff: "within_margin w h r = touches_border (imageBoundary w h) r"
  by (auto simp: within_margin_def touches_border_def imageBoundary_def)

text \<open>A pass of the loop leaves the array as it is or pushes one object.\<close>

lemma detect_pass_cases:
  "detect_pass cv w h now i c objects = objects \<or>
   (\<exists>ob. detect_pass cv w h now i c objects = objects @ [ob] \<and> traced cv w h c ob)"
  by (simp add: detect_pass_def Let_def traced_def)

lemma detect_pass_border:
  "touches_border (imageBoundary w h) (boundingRect cv c) \<Longrightarrow>
   detect_pass cv w h now i c objects = objects"
  by (simp add: detect_pass_def Let_def)

lemma detect_loop_origin:
  "ob \<in> set (detect_loop cv w h clock i cs objects) \<Longrightarrow>
   ob \<in> set objects \<or> (\<exists>c \<in> set cs. traced cv w h c ob)"
proof (induction cs arbitrary: i objects)
  case Nil
  then show ?case by simp
next
  case (Cons c cs)
  from Cons.prems
  have "ob \<in> set (detect_loop cv w h clock (Suc i) cs (detect_pass cv w h (clock i) i c objects))"
    by simp
  from Cons.IH [OF this]
  consider "ob \<in> set (detect_pass cv w h (clock i) i c objects)"
    | "\<exists>c \<in> set cs. traced cv w h c ob"
    by blast
  then show ?case
  proof cases
    case 1
    with detect_pass_cases [of cv w h "clock i" i c objects] show ?thesis
      by auto
  next
    case 2
    then show ?thesis by auto
  qed
qed

lemma detect_pass_utils_cases:
  "detect_pass_utils cv coin w h now i c objects = objects \<or>
   (\<exists>ob. detect_pass_utils cv coin w h now i c objects = objects @ [ob] \<and> traced_utils cv c ob)"
  by (simp add: detect_pass_utils_def Let_def traced_utils_def foldl_pixelLength)

lemma detect_loop_utils_origin:
  "ob \<in> set (detect_loop_utils cv coin w h clock i cs objects) \<Longrightarrow>
   ob \<in> set objects \<or> (\<exists>c \<in> set cs. traced_utils cv c ob)"
proof (induction cs arbitrary: i objects)
  case Nil
  then show ?case by simp
next
  case (Cons c cs)
  from Cons.prems
  have "ob \<in> set (detect_loop_utils cv coin w h clock (Suc i) cs
           (detect_pass_utils cv coin w h (clock i) i c objects))"
    by simp
  from Cons.IH [OF this]
  consider "ob \<in> set (detect_pass_utils cv coin w h (clock i) i c objects)"
    | "\<exists>c \<in> set cs. traced_utils cv c ob"
    by blast
  then show ?case
  proof cases
    case 1
    with detect_pass_utils_cases [of cv coin w h "clock i" i c objects] show ?thesis
      by auto
  next
    case 2
    then show ?thesis by auto
  qed
qed

lemmas example_detection_simps =
  detect_pass_def detect_pass_utils_def example_cv_def example_clock_def Let_def
  touches_border_def imageBoundary_def

lemma bar_detected_fields:
  "length bar_detected = 1"
  "perimeter (hd bar_detected) = 1406"
  "map pixelLength (edges (hd bar_detected)) = [600, 100, 600, 100]"
  by (simp_all add: bar_detected_def example_detection_simps edgesList_4 dist_horizontal dist_vertical)

lemma bar_detected_utils_fields:
  "length bar_detected_utils = 1"
  "perimeter (hd bar_detected_utils) = 1400"
  "map pixelLength (edges (hd bar_detected_utils)) = [600, 100, 600, 100]"
  by (simp_all add: bar_detected_utils_def example_detection_simps edgesArr_4 js_hypot_axis)

text \<open>
  C4, as amended.  In \<^verbatim>\<open>src/src/opencvUtils.js\<close> the \<^verbatim>\<open>perimeter\<close> of an object that
  \<^verbatim>\<open>detectContours\<close> returns is \<^verbatim>\<open>cv.arcLength(contour, true)\<close> of the contour it was
  traced from, the length its circularity is computed with; its edges join the
  vertices of the simplified polygon, each to the next and the last to the first.  In
  \<^verbatim>\<open>src/src/utils/opencvUtils.js\<close> the \<^verbatim>\<open>perimeter\<close> is the sum of the
  \<^verbatim>\<open>pixelLength\<close> of these edges.
\<close>

theorem detected_perimeter:
  "(detectContours (Inr cv) clock (Inr cap) = Inr obs \<and> ob \<in> set obs \<longrightarrow>
      (\<exists>c \<in> set (contours cap).
          perimeter ob = arcLength cv c \<and>
          points ob = approxPolyDP cv c (0.015 * arcLength cv c)) \<and>
      circularity ob = Some (js_div (4 * pi * area ob) (perimeter ob * perimeter ob)) \<and>
      length (edges ob) = length (points ob) \<and>
      (\<forall>j < length (points ob).
          edges ob ! j =
            \<lparr>edge_start = points ob ! j,
             edge_end = points ob ! ((j + 1) mod length (points ob)),
             pixelLength = calculatePixelDistance (points ob ! j)
                             (points ob ! ((j + 1) mod length (points ob))),
             realLength = None\<rparr>)) \<and>
   (detectContours_utils (Inr cv) coin clock (Inr cap) = Inr obs' \<and> ob' \<in> set obs' \<longrightarrow>
      perimeter ob' = sum_list (map pixelLength (edges ob')) \<and>
      (\<exists>c \<in> set (contours cap).
          edges ob' = edgesArr (approxPolyDP cv c (0.015 * arcLength cv c))))"
proof (intro conjI impI)
  assume a: "detectContours (Inr cv) clock (Inr cap) = Inr obs \<and> ob \<in> set obs"
  then have "ob \<in> set (detect_loop cv (canvasWidth cap) (canvasHeight cap) clock 0 (contours cap) [])"
    by (auto simp: detectContours_def)
  from detect_loop_origin [OF this]
  obtain c where c: "c \<in> set (contours cap)" "traced cv (canvasWidth cap) (canvasHeight cap) c ob"
    by auto
  from c show "\<exists>c \<in> set (contours cap).
          perimeter ob = arcLength cv c \<and>
          points ob = approxPolyDP cv c (0.015 * arcLength cv c)"
    unfolding traced_def by blast
  from c(2) show "circularity ob = Some (js_div (4 * pi * area ob) (perimeter ob * perimeter ob))"
    unfolding traced_def by blast
  from c(2) have e: "edges ob = edgesList (points ob)"
    unfolding traced_def by blast
  show "length (edges ob) = length (points ob)"
    by (simp only: e length_edgesList)
  show "\<forall>j < length (points ob).
          edges ob ! j =
            \<lparr>edge_start = points ob ! j,
             edge_end = points ob ! ((j + 1) mod length (points ob)),
             pixelLength = calculatePixelDistance (points ob ! j)
                             (points ob ! ((j + 1) mod length (points ob))),
             realLength = None\<rparr>"
    using e by (auto simp: edgesList_nth)
next
  assume a: "detectContours_utils (Inr cv) coin clock (Inr cap) = Inr obs' \<and> ob' \<in> set obs'"
  then have "ob' \<in> set (detect_loop_utils cv coin (canvasWidth cap) (canvasHeight cap) clock 0
                          (contours cap) [])"
    by (auto simp: detectContours_utils_def)
  from detect_loop_utils_origin [OF this]
  obtain c where c: "c \<in> set (contours cap)" "traced_utils cv c ob'"
    by auto
  from c(2) show "perimeter ob' = sum_list (map pixelLength (edges ob'))"
    unfolding traced_utils_def by blast
  from c show "\<exists>c \<in> set (contours cap).
          edges ob' = edgesArr (approxPolyDP cv c (0.015 * arcLength cv c))"
    unfolding traced_utils_def by blast
qed

text \<open>
  The claim as stated fails for \<^verbatim>\<open>src/src/opencvUtils.js\<close>: for the dented bar the
  traced length is 1406, while the four edges of its simplified polygon add up to 1400.
\<close>

theorem detected_perimeter_counterexample:
  "detectContours (Inr example_cv) example_clock (Inr bar_capture) = Inr bar_detected \<and>
   length bar_detected = 1 \<and>
   perimeter (hd bar_detected) = 1406 \<and>
   sum_list (map pixelLength (edges (hd bar_detected))) = 1400"
proof -
  have "detectContours (Inr example_cv) example_clock (Inr bar_capture) = Inr bar_detected"
    by (simp add: detectContours_def bar_capture_def bar_detected_def)
  then show ?thesis
    by (simp add: bar_detected_fields)
qed

theorem detected_perimeter_witness:
  "detectContours (Inr example_cv) example_clock (Inr bar_capture) = Inr bar_detected \<and>
   hd bar_detected \<in> set bar_detected \<and>
   perimeter (hd bar_detected) = arcLength example_cv DentedBar \<and>
   length (edges (hd bar_detected)) = length (points (hd bar_detected)) \<and>
   detectContours_utils (Inr example_cv) None example_clock (Inr bar_capture) = Inr bar_detected_utils \<and>
   hd bar_detected_utils \<in> set bar_detected_utils \<and>
   perimeter (hd bar_detected_utils) = sum_list (map pixelLength (edges (hd bar_detected_utils))) \<and>
   perimeter (hd bar_detected_utils) = 1400"
proof -
  have d: "detectContours (Inr example_cv) example_clock (Inr bar_capture) = Inr bar_detected"
    by (simp add: detectContours_def bar_capture_def bar_detected_def)
  have m: "hd bar_detected \<in> set bar_detected"
    using bar_detected_fields(1) by (intro hd_in_set) auto
  have du: "detectContours_utils (Inr example_cv) None example_clock (Inr bar_capture) = Inr bar_detected_utils"
    by (simp add: detectContours_utils_def bar_capture_def bar_detected_utils_def)
  have mu: "hd bar_detected_utils \<in> set bar_detected_utils"
    using bar_detected_utils_fields(1) by (intro hd_in_set) auto
  have cs: "set (contours bar_capture) = {DentedBar}"
    by (simp add: bar_capture_def)
  from detected_perimeter [of example_cv example_clock bar_capture bar_detected "hd bar_detected"
      None bar_detected_utils "hd bar_detected_utils"] d m du mu
  have "(\<exists>c \<in> set (contours bar_capture). perimeter (hd bar_detected) = arcLength example_cv c \<and>
          points (hd bar_detected) = approxPolyDP example_cv c (0.015 * arcLength example_cv c))"
    and "length (edges (hd bar_detected)) = length (points (hd bar_detected))"
    and "perimeter (hd bar_detected_utils) = sum_list (map pixelLength (edges (hd bar_detected_utils)))"
    by blast+
  with d m du mu cs show ?thesis
    by (simp add: bar_detected_utils_fields)
qed

text \<open>
  C9.  A contour whose bounding box is within the margin of 10 pixels of an image edge
  is skipped by the pass of \<^verbatim>\<open>detectContours\<close> that looks at it, whatever OpenCV
  reports as its area and its arc length; and the bounding box of every object that
  \<^verbatim>\<open>detectContours\<close> returns is outside that margin, so none of them is this contour's.
\<close>

theorem border_contour_rejected:
  assumes "within_margin (canvasWidth cap) (canvasHeight cap) (boundingRect cv c)"
  shows "detect_pass cv (canvasWidth cap) (canvasHeight cap) now i c objects = objects \<and>
         (\<forall>obs. detectContours (Inr cv) clock (Inr cap) = Inr obs \<longrightarrow>
            (\<forall>ob \<in> set obs. contour ob \<noteq> boundingRect cv c \<and>
               \<not> within_margin (canvasWidth cap) (canvasHeight cap) (contour ob)))"
proof (intro conjI allI impI ballI)
  from assms show "detect_pass cv (canvasWidth cap) (canvasHeight cap) now i c objects = objects"
    by (simp add: within_margin_iff detect_pass_border)
next
  fix obs ob
  assume "detectContours (Inr cv) clock (Inr cap) = Inr obs" and "ob \<in> set obs"
  then have "ob \<in> set (detect_loop cv (canvasWidth cap) (canvasHeight cap) clock 0 (contours cap) [])"
    by (auto simp: detectContours_def)
  from detect_loop_origin [OF this]
  obtain c' where "traced cv (canvasWidth cap) (canvasHeight cap) c' ob"
    by auto
  then have n: "\<not> within_margin (canvasWidth cap) (canvasHeight cap) (contour ob)"
    by (simp add: traced_def within_margin_iff)
  with assms show "contour ob \<noteq> boundingRect cv c"
    by auto
  from n show "\<not> within_margin (canvasWidth cap) (canvasHeight cap) (contour ob)" .
qed

theorem border_contour_rejected_witness:
  "rect_x (boundingRect example_cv EdgeDisc) = 0 \<and>
   within_margin (canvasWidth edge_capture) (canvasHeight edge_capture) (boundingRect example_cv EdgeDisc) \<and>
   detect_pass example_cv (canvasWidth edge_capture) (canvasHeight edge_capture) 0 0 EdgeDisc [] = [] \<and>
   map contour (projr (detectContours (Inr example_cv) example_clock (Inr edge_capture))) =
     [boundingRect example_cv InnerSquare]"
proof -
  have h: "within_margin (canvasWidth edge_capture) (canvasHeight edge_capture)
             (boundingRect example_cv EdgeDisc)"
    by (simp add: within_margin_def edge_capture_def example_cv_def)
  have "map contour (projr (detectContours (Inr example_cv) example_clock (Inr edge_capture))) =
     [boundingRect example_cv InnerSquare]"
    by (simp add: detectContours_def edge_capture_def example_detection_simps)
  with h border_contour_rejected [OF h, of 0 0 "[]" example_clock] show ?thesis
    by (simp add: example_cv_def)
qed

section \<open>Properties of the coin search\<close>

lemma coin_pass_no_candidate:
  "\<not> coin_candidate cv w h c \<Longrightarrow> coin_pass cv w h c st = st"
  by (auto simp: coin_candidate_def coin_pass_def Let_def)

lemma coin_loop_no_candidate:
  "\<forall>c \<in> set cs. \<not> coin_candidate cv w h c \<Longrightarrow> coin_loop cv w h cs st = st"
  by (induction cs arbitrary: st) (simp_all add: coin_pass_no_candidate)

lemma coin_loop_part_000_no_candidate:
  "\<forall>c \<in> set cs. \<not> coin_candidate_part_000 cv c \<Longrightarrow> coin_loop_part_000 cv cs = None"
  by (induction cs) (auto simp: coin_candidate_part_000_def Let_def)

lemma coin_pass_inv: "coin_inv st \<Longrightarrow> coin_inv (coin_pass cv w h c st)"
  by (auto simp: coin_inv_def coin_pass_def Let_def split: option.splits)

lemma coin_loop_inv: "coin_inv st \<Longrightarrow> coin_inv (coin_loop cv w h cs st)"
  by (induction cs arbitrary: st) (simp_all add: coin_pass_inv)

lemma js_gt_above_zero: "js_gt v (Fin 0.45) \<Longrightarrow> js_gt v (Fin 0)"
  by (cases v) auto

lemma coin_pass_candidate:
  "coin_inv st \<Longrightarrow> coin_candidate cv w h c \<Longrightarrow> \<exists>d. fst (coin_pass cv w h c st) = Some d"
  by (cases "fst st")
    (auto simp: coin_inv_def coin_candidate_def coin_pass_def Let_def js_gt_above_zero)

lemma coin_pass_keeps: "fst st = Some d \<Longrightarrow> \<exists>d'. fst (coin_pass cv w h c st) = Some d'"
  by (auto simp: coin_pass_def Let_def)

lemma coin_loop_keeps: "fst st = Some d \<Longrightarrow> \<exists>d'. fst (coin_loop cv w h cs st) = Some d'"
proof (induction cs arbitrary: st d)
  case Nil
  then show ?case by simp
next
  case (Cons c cs)
  from coin_pass_keeps [OF Cons.prems, of cv w h c]
  obtain d' where "fst (coin_pass cv w h c st) = Some d'"
    by blast
  from Cons.IH [OF this] show ?case by simp
qed

lemma coin_loop_candidate:
  "coin_inv st \<Longrightarrow> \<exists>c \<in> set cs. coin_candidate cv w h c \<Longrightarrow>
   \<exists>d. fst (coin_loop cv w h cs st) = Some d"
proof (induction cs arbitrary: st)
  case Nil
  then show ?case by simp
next
  case (Cons c cs)
  show ?case
  proof (cases "coin_candidate cv w h c")
    case True
    from coin_pass_candidate [OF Cons.prems(1) True]
    obtain d where "fst (coin_pass cv w h c st) = Some d"
      by blast
    from coin_loop_keeps [OF this] show ?thesis by simp
  next
    case False
    with Cons.prems(2) have "\<exists>c \<in> set cs. coin_candidate cv w h c" by simp
    from Cons.IH [OF coin_pass_inv [OF Cons.prems(1)] this] show ?thesis by simp
  qed
qed

text \<open>
  In \<^verbatim>\<open>src/src/opencvUtils.js\<close> a coin is reported as found exactly when some contour
  passes the four filters.
\<close>

lemma detectCoin_found_iff:
  "(\<exists>d. detectCoin (Inr cv) (Inr cap) =
      Inr \<lparr>pixelDiameter = Some d, found = True,
           message = ''Coin successfully detected for calibration.''\<rparr>) =
   (\<exists>c \<in> set (contours cap). coin_candidate cv (canvasWidth cap) (canvasHeight cap) c)"
proof (cases "\<exists>c \<in> set (contours cap). coin_candidate cv (canvasWidth cap) (canvasHeight cap) c")
  case True
  have i: "coin_inv (None, Fin 0)" by (simp add: coin_inv_def)
  from coin_loop_candidate [OF i True] obtain d where
    d: "fst (coin_loop cv (canvasWidth cap) (canvasHeight cap) (contours cap) (None, Fin 0)) = Some d"
    by blast
  from coin_loop_inv [OF i, of cv "canvasWidth cap" "canvasHeight cap" "contours cap"] d
  have "40 \<le> d" by (simp add: coin_inv_def)
  with d True show ?thesis
    by (simp add: detectCoin_def truthy_def Let_def)
next
  case False
  then have "coin_loop cv (canvasWidth cap) (canvasHeight cap) (contours cap) (None, Fin 0) =
               (None, Fin 0)"
    by (simp add: coin_loop_no_candidate)
  with False show ?thesis
    by (simp add: detectCoin_def truthy_def Let_def)
qed

text \<open>When its processing throws, this \<^verbatim>\<open>detectCoin\<close> returns an object as well.\<close>

lemma detectCoin_catch:
  "detectCoin (Inr cv) (Inl e) =
     Inr \<lparr>pixelDiameter = None, found = False,
          message = ''Coin detection failed during processing: '' @ e\<rparr>"
  by (simp add: detectCoin_def)

text \<open>
  C5, as amended.  When no contour qualifies as a coin, \<^verbatim>\<open>detectCoin\<close> of
  \<^verbatim>\<open>src/src/opencvUtils.js\<close> yields the not-found outcome as a returned value with
  \<^verbatim>\<open>found: false\<close> and \<^verbatim>\<open>pixelDiameter: null\<close>, not as a thrown error.  The outcome is
  distinguishable: whenever some contour qualifies, the returned value has
  \<^verbatim>\<open>found: true\<close> and a diameter, so a caller that reads \<^verbatim>\<open>found\<close> can fall back to
  manual calibration.  \<^verbatim>\<open>detectCoin\<close> of \<^verbatim>\<open>part_000\<close> instead rejects its promise with
  the error \<^verbatim>\<open>No coin detected\<close> when no contour passes its tests.
\<close>

theorem coin_not_found_outcomes:
  "((\<forall>c \<in> set (contours cap). \<not> coin_candidate cv (canvasWidth cap) (canvasHeight cap) c) \<longrightarrow>
      detectCoin (Inr cv) (Inr cap) =
        Inr \<lparr>pixelDiameter = None, found = False,
             message = ''No suitable coin found for calibration.''\<rparr>) \<and>
   ((\<exists>c \<in> set (contours cap). coin_candidate cv (canvasWidth cap) (canvasHeight cap) c) \<longrightarrow>
      (\<exists>d. detectCoin (Inr cv) (Inr cap) =
        Inr \<lparr>pixelDiameter = Some d, found = True,
             message = ''Coin successfully detected for calibration.''\<rparr>)) \<and>
   ((\<forall>c \<in> set (contours cap). \<not> coin_candidate_part_000 cv c) \<longrightarrow>
      detectCoin_part_000 (Inr cv) (Inr cap) = Inl ''No coin detected'')"
proof (intro conjI impI)
  assume "\<forall>c \<in> set (contours cap). \<not> coin_candidate cv (canvasWidth cap) (canvasHeight cap) c"
  then show "detectCoin (Inr cv) (Inr cap) =
        Inr \<lparr>pixelDiameter = None, found = False,
             message = ''No suitable coin found for calibration.''\<rparr>"
    by (simp add: detectCoin_def coin_loop_no_candidate truthy_def)
next
  assume "\<exists>c \<in> set (contours cap). coin_candidate cv (canvasWidth cap) (canvasHeight cap) c"
  then show "\<exists>d. detectCoin (Inr cv) (Inr cap) =
        Inr \<lparr>pixelDiameter = Some d, found = True,
             message = ''Coin successfully detected for calibration.''\<rparr>"
    by (simp only: detectCoin_found_iff)
next
  assume "\<forall>c \<in> set (contours cap). \<not> coin_candidate_part_000 cv c"
  then show "detectCoin_part_000 (Inr cv) (Inr cap) = Inl ''No coin detected''"
    by (simp add: detectCoin_part_000_def coin_loop_part_000_no_candidate)
qed

text \<open>
  The claim as stated fails for \<^verbatim>\<open>part_000\<close>: in the image that shows the bar only, no
  contour is a coin, and its \<^verbatim>\<open>detectCoin\<close> ends in a rejected promise, not in a
  returned value.
\<close>

theorem coin_not_found_counterexample:
  "detectCoin_part_000 (Inr example_cv) (Inr bar_capture) = Inl ''No coin detected'' \<and>
   detectCoin (Inr example_cv) (Inr bar_capture) =
     Inr \<lparr>pixelDiameter = None, found = False,
          message = ''No suitable coin found for calibration.''\<rparr>"
  by (simp add: detectCoin_def detectCoin_part_000_def bar_capture_def example_cv_def
      coin_pass_def Let_def truthy_def)

lemma inner_square_candidate:
  "coin_candidate example_cv (canvasWidth edge_capture) (canvasHeight edge_capture) InnerSquare"
proof -
  have "0.45 < 4 * pi * 10000 / (400 * 400)"
    using pi_ge_two by simp
  then show ?thesis
    by (simp add: coin_candidate_def example_cv_def edge_capture_def touches_border_def
        imageBoundary_def js_div_def)
qed

theorem coin_not_found_outcomes_witness:
  "\<not> coin_candidate example_cv (canvasWidth bar_capture) (canvasHeight bar_capture) DentedBar \<and>
   \<not> coin_candidate_part_000 example_cv DentedBar \<and>
   contours bar_capture = [DentedBar] \<and>
   detectCoin (Inr example_cv) (Inr bar_capture) =
     Inr \<lparr>pixelDiameter = None, found = False,
          message = ''No suitable coin found for calibration.''\<rparr> \<and>
   detectCoin_part_000 (Inr example_cv) (Inr bar_capture) = Inl ''No coin detected'' \<and>
   InnerSquare \<in> set (contours edge_capture) \<and>
   coin_candidate example_cv (canvasWidth edge_capture) (canvasHeight edge_capture) InnerSquare \<and>
   (\<exists>d. detectCoin (Inr example_cv) (Inr edge_capture) =
      Inr \<lparr>pixelDiameter = Some d, found = True,
           message = ''Coin successfully detected for calibration.''\<rparr>)"
proof -
  have a: "\<not> coin_candidate example_cv (canvasWidth bar_capture) (canvasHeight bar_capture) DentedBar"
    by (simp add: coin_candidate_def example_cv_def bar_capture_def)
  have b: "\<not> coin_candidate_part_000 example_cv DentedBar"
    by (simp add: coin_candidate_part_000_def example_cv_def)
  have c: "contours bar_capture = [DentedBar]"
    by (simp add: bar_capture_def)
  have m: "InnerSquare \<in> set (contours edge_capture)"
    by (simp add: edge_capture_def)
  from m inner_square_candidate
  have e: "\<exists>c \<in> set (contours edge_capture).
             coin_candidate example_cv (canvasWidth edge_capture) (canvasHeight edge_capture) c"
    by blast
  from a b c coin_not_found_outcomes [of bar_capture example_cv]
  have "detectCoin (Inr example_cv) (Inr bar_capture) =
     Inr \<lparr>pixelDiameter = None, found = False,
          message = ''No suitable coin found for calibration.''\<rparr>"
    and "detectCoin_part_000 (Inr example_cv) (Inr bar_capture) = Inl ''No coin detected''"
    by simp_all
  moreover from e coin_not_found_outcomes [of edge_capture example_cv]
  have "\<exists>d. detectCoin (Inr example_cv) (Inr edge_capture) =
      Inr \<lparr>pixelDiameter = Some d, found = True,
           message = ''Coin successfully detected for calibration.''\<rparr>"
    by blast
  ultimately show ?thesis
    using a b c m inner_square_candidate by blast
qed

section \<open>Properties of the manual polygons\<close>

lemma foldl_upt_sum:
  "foldl (\<lambda>a i. a + f i) a0 [0..<n] = a0 + (\<Sum>i < n. f i)"
  by (induction n) (simp_all add: add.assoc)

lemma shoelace_loop_sum:
  "shoelace_loop pts =
     (\<Sum>i < length pts.
         pt_x (pts ! i) * pt_y (pts ! ((i + 1) mod length pts)) -
         pt_x (pts ! ((i + 1) mod length pts)) * pt_y (pts ! i))"
  unfolding shoelace_loop_def Let_def by (simp only: foldl_upt_sum add_0)

lemma shoelace_loop_part_005_eq: "shoelace_loop_part_005 pts = shoelace_loop pts"
proof -
  have "(\<lambda>area i. area + pt_x (pts ! i) * pt_y (pts ! ((i + 1) mod length pts)) -
                  pt_x (pts ! ((i + 1) mod length pts)) * pt_y (pts ! i)) =
        (\<lambda>area i. area + (pt_x (pts ! i) * pt_y (pts ! ((i + 1) mod length pts)) -
                  pt_x (pts ! ((i + 1) mod length pts)) * pt_y (pts ! i)))"
    by (intro ext) simp
  then show ?thesis
    unfolding shoelace_loop_part_005_def shoelace_loop_def Let_def by simp
qed

lemma calculatePixelDistance_euclidean: "calculatePixelDistance a b = euclidean a b"
  by (simp add: calculatePixelDistance_def euclidean_def Let_def power2_eq_square)

lemma perimeter_loop_sum_list: "perimeter_loop es = sum_list (map pixelLength es)"
  by (simp add: perimeter_loop_def foldl_pixelLength)

lemma perimeter_loop_edgesList: "perimeter_loop (edgesList pts) = loop_length pts"
proof -
  have "sum_list (map pixelLength (edgesList pts)) =
        sum_list (map (\<lambda>i. euclidean (pts ! i) (pts ! ((i + 1) mod length pts))) [0..<length pts])"
    by (simp add: edgesList_def Let_def comp_def calculatePixelDistance_euclidean)
  also have "\<dots> = (\<Sum>i < length pts. euclidean (pts ! i) (pts ! ((i + 1) mod length pts)))"
    by (simp add: interv_sum_list_conv_sum_set_nat atLeast0LessThan)
  finally show ?thesis
    by (simp add: perimeter_loop_sum_list loop_length_def)
qed

lemma Math_min_Min: "xs \<noteq> [] \<Longrightarrow> Math_min xs = Min (set xs)"
  by (cases xs) (simp_all add: Math_min_def Min.set_eq_fold [symmetric])

lemma Math_max_Max: "xs \<noteq> [] \<Longrightarrow> Math_max xs = Max (set xs)"
  by (cases xs) (simp_all add: Math_max_def Max.set_eq_fold [symmetric])

lemma applyPPMToObject_keeps:
  "points (applyPPMToObject obj s) = points obj"
  "area (applyPPMToObject obj s) = area obj"
  "perimeter (applyPPMToObject obj s) = perimeter obj"
  "contour (applyPPMToObject obj s) = contour obj"
  "isCoin (applyPPMToObject obj s) = isCoin obj"
  "map pixelLength (edges (applyPPMToObject obj s)) = map pixelLength (edges obj)"
  by (simp_all add: applyPPMToObject_def Let_def scale_edge_def comp_def split: option.splits)

lemma applyPPMToObject_part_000_keeps:
  "points (applyPPMToObject_part_000 obj s) = points obj"
  "area (applyPPMToObject_part_000 obj s) = area obj"
  "perimeter (applyPPMToObject_part_000 obj s) = perimeter obj"
  "contour (applyPPMToObject_part_000 obj s) = contour obj"
  "isCoin (applyPPMToObject_part_000 obj s) = isCoin obj"
  "map pixelLength (edges (applyPPMToObject_part_000 obj s)) = map pixelLength (edges obj)"
  by (simp_all add: applyPPMToObject_part_000_def Let_def split: option.splits)

lemma manualObject_fields:
  "points (manualObject now pts objs s) = pts"
  "area (manualObject now pts objs s) = \<bar>shoelace_loop pts\<bar> / 2"
  "perimeter (manualObject now pts objs s) = perimeter_loop (edgesList pts)"
  "contour (manualObject now pts objs s) =
     \<lparr>rect_x = Math_min (map pt_x pts), rect_y = Math_min (map pt_y pts),
      width = Math_max (map pt_x pts) - Math_min (map pt_x pts),
      height = Math_max (map pt_y pts) - Math_min (map pt_y pts)\<rparr>"
  "isCoin (manualObject now pts objs s) = False"
  "map pixelLength (edges (manualObject now pts objs s)) = map pixelLength (edgesList pts)"
  by (simp_all add: manualObject_def Let_def applyPPMToObject_keeps)

lemma createdObject_fields:
  assumes "applyPPM = applyPPMToObject \<or> applyPPM = applyPPMToObject_part_000"
  shows "points (createdObject applyPPM now pts objs s k) = pts"
  "area (createdObject applyPPM now pts objs s k) = \<bar>shoelace_loop pts\<bar> / 2"
  "perimeter (createdObject applyPPM now pts objs s k) = perimeter_loop (edgesList pts)"
  "contour (createdObject applyPPM now pts objs s k) =
     \<lparr>rect_x = Math_min (map pt_x pts), rect_y = Math_min (map pt_y pts),
      width = Math_max (map pt_x pts) - Math_min (map pt_x pts),
      height = Math_max (map pt_y pts) - Math_min (map pt_y pts)\<rparr>"
  "isCoin (createdObject applyPPM now pts objs s k) = False"
  "map pixelLength (edges (createdObject applyPPM now pts objs s k)) = map pixelLength (edgesList pts)"
  using assms
  by (auto simp: createdObject_def Let_def applyPPMToObject_keeps applyPPMToObject_part_000_keeps
      shoelace_loop_part_005_eq)

lemma manual_extent:
  "pts \<noteq> [] \<Longrightarrow>
   \<lparr>rect_x = Math_min (map pt_x pts), rect_y = Math_min (map pt_y pts),
      width = Math_max (map pt_x pts) - Math_min (map pt_x pts),
      height = Math_max (map pt_y pts) - Math_min (map pt_y pts)\<rparr> = extent pts"
  by (simp add: extent_def Math_min_Min Math_max_Max)


lemma square_measures:
  "\<bar>shoelace_loop square_points\<bar> / 2 = 100"
  "perimeter_loop (edgesList square_points) = 40"
  "map pixelLength (edgesList square_points) = [10, 10, 10, 10]"
  "extent square_points = \<lparr>rect_x = 0, rect_y = 0, width = 10, height = 10\<rparr>"
  by (simp_all add: shoelace_loop_def perimeter_loop_def square_points_def upt_rec Let_def
      edgesList_4 dist_horizontal dist_vertical extent_def)

text \<open>
  C6.  Given three points or more, \<^verbatim>\<open>finishManualObject\<close> of the hook and
  \<^verbatim>\<open>finishCreatingObject\<close> of \<^verbatim>\<open>part_005\<close> append one object to the object list.
  Its points are the given ones, its area is the shoelace value of the closed loop, its
  perimeter the sum of the Euclidean lengths of the edges between consecutive points with
  the edge from the last point back to the first, and its bounding box spans from the
  least to the greatest coordinate.  For the square (0,0), (10,0), (10,10), (0,10) the area
  is 100, the perimeter 40 and every edge 10 pixels long.
\<close>

theorem manual_polygon_measures:
  fixes prev :: "'a detection_state_scheme" and st :: "'b app_state_scheme"
    and now :: nat and pts :: "point list"
    and applyPPM :: "detected_object \<Rightarrow> real option \<Rightarrow> detected_object"
  defines "ob \<equiv> manualObject now pts (st_objects prev) (st_ppm prev)"
    and "ob5 \<equiv> createdObject applyPPM now pts (app_objects st) (app_ppm st) (app_nextObjectId st)"
  shows
  "(3 \<le> length pts \<longrightarrow>
      finishManualObject now (Some pts) prev =
        ([], prev\<lparr>st_objects := st_objects prev @ [Shape ob],
                  st_creatingPoints := [], st_mode := Select\<rparr>) \<and>
      points ob = pts \<and> \<not> isCoin ob \<and>
      area ob = shoelace_area pts \<and>
      perimeter ob = loop_length pts \<and>
      contour ob = extent pts \<and>
      map pixelLength (edges ob) =
        map (\<lambda>i. euclidean (pts ! i) (pts ! ((i + 1) mod length pts))) [0..<length pts]) \<and>
   (3 \<le> length pts \<and> (applyPPM = applyPPMToObject \<or> applyPPM = applyPPMToObject_part_000) \<longrightarrow>
      finishCreatingObject applyPPM now pts st =
        ([], st\<lparr>app_objects := app_objects st @ [Shape ob5],
                app_nextObjectId := app_nextObjectId st + 1,
                app_newObjectPoints := [],
                app_mode := Select,
                app_selectedObjectId := Some (obj_id ob5)\<rparr>) \<and>
      points ob5 = pts \<and> \<not> isCoin ob5 \<and>
      area ob5 = shoelace_area pts \<and>
      perimeter ob5 = loop_length pts \<and>
      contour ob5 = extent pts \<and>
      map pixelLength (edges ob5) =
        map (\<lambda>i. euclidean (pts ! i) (pts ! ((i + 1) mod length pts))) [0..<length pts]) \<and>
   (pts = square_points \<longrightarrow>
      area ob = 100 \<and> perimeter ob = 40 \<and> map pixelLength (edges ob) = [10, 10, 10, 10]) \<and>
   (pts = square_points \<and> (applyPPM = applyPPMToObject \<or> applyPPM = applyPPMToObject_part_000) \<longrightarrow>
      area ob5 = 100 \<and> perimeter ob5 = 40 \<and> map pixelLength (edges ob5) = [10, 10, 10, 10])"
proof -
  have el: "map pixelLength (edgesList pts) =
              map (\<lambda>i. euclidean (pts ! i) (pts ! ((i + 1) mod length pts))) [0..<length pts]"
    by (simp add: edgesList_def Let_def comp_def calculatePixelDistance_euclidean)
  have sa: "\<bar>shoelace_loop pts\<bar> / 2 = shoelace_area pts"
    by (simp only: shoelace_loop_sum shoelace_area_def)
  have hook: "finishManualObject now (Some pts) prev =
        ([], prev\<lparr>st_objects := st_objects prev @ [Shape ob],
                  st_creatingPoints := [], st_mode := Select\<rparr>)"
    if "3 \<le> length pts"
    using that by (simp add: finishManualObject_def ob_def Let_def)
  have app: "finishCreatingObject applyPPM now pts st =
        ([], st\<lparr>app_objects := app_objects st @ [Shape ob5],
                app_nextObjectId := app_nextObjectId st + 1,
                app_newObjectPoints := [],
                app_mode := Select,
                app_selectedObjectId := Some (obj_id ob5)\<rparr>)"
    if "3 \<le> length pts"
    using that by (simp add: finishCreatingObject_def ob5_def Let_def)
  have ne: "pts \<noteq> []" if "3 \<le> length pts"
    using that by auto
  show ?thesis
  proof (intro conjI impI)
    assume "pts = square_points"
    then show "area ob = 100" "perimeter ob = 40" "map pixelLength (edges ob) = [10, 10, 10, 10]"
      by (simp_all add: ob_def manualObject_fields square_measures)
  next
    assume "pts = square_points \<and> (applyPPM = applyPPMToObject \<or> applyPPM = applyPPMToObject_part_000)"
    then show "area ob5 = 100" "perimeter ob5 = 40" "map pixelLength (edges ob5) = [10, 10, 10, 10]"
      by (simp_all add: ob5_def createdObject_fields square_measures)
  qed (simp_all add: hook app ob_def ob5_def manualObject_fields createdObject_fields
        sa perimeter_loop_edgesList manual_extent ne el)
qed


theorem manual_polygon_measures_witness:
  "3 \<le> length square_points \<and>
   finishManualObject 1700000000000 (Some square_points) empty_state =
     ([], empty_state\<lparr>st_objects := [Shape square_object], st_creatingPoints := [],
                       st_mode := Select\<rparr>) \<and>
   area square_object = shoelace_area square_points \<and>
   shoelace_area square_points = 100 \<and>
   loop_length square_points = 40 \<and>
   extent square_points = \<lparr>rect_x = 0, rect_y = 0, width = 10, height = 10\<rparr> \<and>
   area (createdObject applyPPMToObject 1700000000000 square_points [] None 1) = 100 \<and>
   perimeter (createdObject applyPPMToObject_part_000 1700000000000 square_points [] None 1) = 40"
proof -
  have l: "3 \<le> length square_points"
    by (simp add: square_points_def)
  have o: "manualObject 1700000000000 square_points (st_objects empty_state) (st_ppm empty_state) =
             square_object"
    by (simp add: manualObject_def empty_state_def Let_def truthy_def square_object_def
        square_measures palette5_def show_nat.simps digit_char_def)
      (simp add: square_points_def square_edges_def edgesList_4 dist_horizontal dist_vertical
        Math_min_def Math_max_def)
  have s: "st_objects empty_state = []"
    by (simp add: empty_state_def)
  have a: "app_objects empty_app = []" "app_ppm empty_app = None" "app_nextObjectId empty_app = 1"
    by (simp_all add: empty_app_def)
  from manual_polygon_measures [of square_points 1700000000000 empty_state applyPPMToObject empty_app]
    manual_polygon_measures [of square_points 1700000000000 empty_state applyPPMToObject_part_000 empty_app]
    l o s a
  show ?thesis
    by (simp add: square_measures)
qed

text \<open>
  C7.  With fewer than three points, \<^verbatim>\<open>finishManualObject\<close> and
  \<^verbatim>\<open>finishCreatingObject\<close> show the alert
  \<^verbatim>\<open>At least 3 points are needed to create an object\<close>, empty the list of points
  being collected and change nothing else: the object list is the one before the call.
\<close>

theorem too_few_points_rejected:
  "(length (case pointsArg of Some ps \<Rightarrow> ps | None \<Rightarrow> st_creatingPoints prev) < 3 \<longrightarrow>
      finishManualObject now pointsArg prev =
        ([''At least 3 points are needed to create an object''], prev\<lparr>st_creatingPoints := []\<rparr>) \<and>
      st_objects (snd (finishManualObject now pointsArg prev)) = st_objects prev) \<and>
   (length pts < 3 \<longrightarrow>
      finishCreatingObject applyPPM now pts st =
        ([''At least 3 points are needed to create an object''], st\<lparr>app_newObjectPoints := []\<rparr>) \<and>
      app_objects (snd (finishCreatingObject applyPPM now pts st)) = app_objects st)"
  by (simp add: finishManualObject_def finishCreatingObject_def Let_def)

theorem too_few_points_rejected_witness:
  "length [\<lparr>pt_x = 0, pt_y = 0\<rparr>, \<lparr>pt_x = 10, pt_y = 0\<rparr>] < 3 \<and>
   finishManualObject 1700000000000 (Some [\<lparr>pt_x = 0, pt_y = 0\<rparr>, \<lparr>pt_x = 10, pt_y = 0\<rparr>])
       (empty_state\<lparr>st_objects := [Shape square_object]\<rparr>) =
     ([''At least 3 points are needed to create an object''],
      empty_state\<lparr>st_objects := [Shape square_object]\<rparr>) \<and>
   st_objects (snd (finishManualObject 1700000000000 None
       (empty_state\<lparr>st_objects := [Shape square_object],
                     st_creatingPoints := [\<lparr>pt_x = 0, pt_y = 0\<rparr>, \<lparr>pt_x = 10, pt_y = 0\<rparr>]\<rparr>))) =
     [Shape square_object] \<and>
   app_objects (snd (finishCreatingObject applyPPMToObject 1700000000000
       [\<lparr>pt_x = 0, pt_y = 0\<rparr>, \<lparr>pt_x = 10, pt_y = 0\<rparr>]
       (empty_app\<lparr>app_objects := [Shape square_object]\<rparr>))) = [Shape square_object]"
proof -
  have "length [\<lparr>pt_x = 0, pt_y = 0\<rparr>, \<lparr>pt_x = 10, pt_y = 0\<rparr>] < 3"
    by simp
  with too_few_points_rejected
      [where pointsArg = "Some [\<lparr>pt_x = 0, pt_y = 0\<rparr>, \<lparr>pt_x = 10, pt_y = 0\<rparr>]"
        and prev = "empty_state\<lparr>st_objects := [Shape square_object]\<rparr>"
        and now = 1700000000000
        and pts = "[\<lparr>pt_x = 0, pt_y = 0\<rparr>, \<lparr>pt_x = 10, pt_y = 0\<rparr>]"
        and applyPPM = applyPPMToObject
        and st = "empty_app\<lparr>app_objects := [Shape square_object]\<rparr>"]
    too_few_points_rejected
      [where pointsArg = None
        and prev = "empty_state\<lparr>st_objects := [Shape square_object],
                     st_creatingPoints := [\<lparr>pt_x = 0, pt_y = 0\<rparr>, \<lparr>pt_x = 10, pt_y = 0\<rparr>]\<rparr>"
        and now = 1700000000000 and pts = "[]" and applyPPM = applyPPMToObject
        and st = empty_app]
  show ?thesis
    by (simp add: empty_state_def empty_app_def)
qed


lemma sqrt_less_iff: "0 \<le> r \<Longrightarrow> (sqrt v < r) = (v < r * r)"
proof -
  assume r: "0 \<le> r"
  then have "sqrt (r * r) = r" by simp
  then have "(sqrt v < r) = (sqrt v < sqrt (r * r))" by simp
  also have "\<dots> = (v < r * r)" by (rule real_sqrt_less_iff)
  finally show ?thesis .
qed

lemma js_hypot_less: "0 \<le> r \<Longrightarrow> (js_hypot a b < r) = (a * a + b * b < r * r)"
  by (simp add: js_hypot_def sqrt_less_iff)

















end
